theory Spec2Isabelle
  imports Main
begin

section \<open>Strings\<close>

text \<open>
  A JavaScript string is modelled as a \<^typ>\<open>string\<close> holding its UTF-8 bytes, the
  encoding of the source files. The glyphs the builders interpolate are therefore
  byte sequences; they are named here once, after the character they encode. A string
  with an unpaired surrogate has no UTF-8 form and is not a value of the model.
\<close>

definition BULLET :: string where \<comment> \<open>U+2022\<close>
  "BULLET = [CHR 0xE2, CHR 0x80, CHR 0xA2]"

definition WHITE_BULLET :: string where \<comment> \<open>U+25E6\<close>
  "WHITE_BULLET = [CHR 0xE2, CHR 0x97, CHR 0xA6]"

definition BLUE_BOOK :: string where \<comment> \<open>U+1F4D8\<close>
  "BLUE_BOOK = [CHR 0xF0, CHR 0x9F, CHR 0x93, CHR 0x98]"

definition CARD_INDEX_DIVIDERS :: string where \<comment> \<open>U+1F5C2 U+FE0F\<close>
  "CARD_INDEX_DIVIDERS = [CHR 0xF0, CHR 0x9F, CHR 0x97, CHR 0x82, CHR 0xEF, CHR 0xB8, CHR 0x8F]"

definition WARNING_SIGN :: string where \<comment> \<open>U+26A0 U+FE0F\<close>
  "WARNING_SIGN = [CHR 0xE2, CHR 0x9A, CHR 0xA0, CHR 0xEF, CHR 0xB8, CHR 0x8F]"

definition EM_DASH :: string where \<comment> \<open>U+2014\<close>
  "EM_DASH = [CHR 0xE2, CHR 0x80, CHR 0x94]"

definition MULTIPLICATION_SIGN :: string where \<comment> \<open>U+00D7\<close>
  "MULTIPLICATION_SIGN = [CHR 0xC3, CHR 0x97]"

definition COMPASS :: string where \<comment> \<open>U+1F9ED\<close>
  "COMPASS = [CHR 0xF0, CHR 0x9F, CHR 0xA7, CHR 0xAD]"

definition PUSHPIN :: string where \<comment> \<open>U+1F4CC\<close>
  "PUSHPIN = [CHR 0xF0, CHR 0x9F, CHR 0x93, CHR 0x8C]"

definition CHECK_MARK :: string where \<comment> \<open>U+2705\<close>
  "CHECK_MARK = [CHR 0xE2, CHR 0x9C, CHR 0x85]"

definition GEAR :: string where \<comment> \<open>U+2699 U+FE0F\<close>
  "GEAR = [CHR 0xE2, CHR 0x9A, CHR 0x99, CHR 0xEF, CHR 0xB8, CHR 0x8F]"

definition BUST :: string where \<comment> \<open>U+1F464\<close>
  "BUST = [CHR 0xF0, CHR 0x9F, CHR 0x91, CHR 0xA4]"

definition CALENDAR :: string where \<comment> \<open>U+1F4C5\<close>
  "CALENDAR = [CHR 0xF0, CHR 0x9F, CHR 0x93, CHR 0x85]"

definition GREEN_CIRCLE :: string where \<comment> \<open>U+1F7E2\<close>
  "GREEN_CIRCLE = [CHR 0xF0, CHR 0x9F, CHR 0x9F, CHR 0xA2]"

definition YELLOW_CIRCLE :: string where \<comment> \<open>U+1F7E1\<close>
  "YELLOW_CIRCLE = [CHR 0xF0, CHR 0x9F, CHR 0x9F, CHR 0xA1]"

definition HOURGLASS :: string where \<comment> \<open>U+23F3\<close>
  "HOURGLASS = [CHR 0xE2, CHR 0x8F, CHR 0xB3]"

definition WHITE_CIRCLE :: string where \<comment> \<open>U+26AA\<close>
  "WHITE_CIRCLE = [CHR 0xE2, CHR 0x9A, CHR 0xAA]"

definition NL :: string where \<comment> \<open>the line feed of a template literal\<close>
  "NL = [CHR 0x0A]"

text \<open>
  \<open>x ?? d\<close> on an optional value, the truthiness of an optional string (absent and
  empty are falsy), \<open>Array.prototype.join\<close> on strings, and the decimal numeral a
  template literal prints for an array length.
\<close>

definition or_else :: "'a option \<Rightarrow> 'a \<Rightarrow> 'a" where
  "or_else x d = (case x of None \<Rightarrow> d | Some v \<Rightarrow> v)"

definition truthy :: "string option \<Rightarrow> bool" where
  "truthy x = (case x of None \<Rightarrow> False | Some s \<Rightarrow> s \<noteq> [])"

fun join :: "string \<Rightarrow> string list \<Rightarrow> string" where
  "join sep [] = []"
| "join sep [x] = x"
| "join sep (x # y # ys) = x @ sep @ join sep (y # ys)"

definition digit_char :: "nat \<Rightarrow> char" where
  "digit_char d = char_of (48 + d)"

function show_nat :: "nat \<Rightarrow> string" where
  "show_nat n = (if n < 10 then [digit_char n] else show_nat (n div 10) @ [digit_char (n mod 10)])"
  by pat_completeness auto
termination
  by (relation "measure (\<lambda>n. n)") auto

declare show_nat.simps [simp del]

text \<open>
  \<open>String.prototype.trim\<close> strips the white space and line terminators of ECMAScript
  from both ends. In UTF-8 they are the byte sequences of \<open>js_whitespace\<close>: TAB, LF,
  VT, FF, CR, SP, U+00A0, U+1680, U+2000 to U+200A, U+2028, U+2029, U+202F, U+205F,
  U+3000 and U+FEFF.
\<close>

definition js_whitespace :: "string list" where
  "js_whitespace =
     [[CHR 0x09], [CHR 0x0A], [CHR 0x0B], [CHR 0x0C], [CHR 0x0D], [CHR 0x20],
      [CHR 0xC2, CHR 0xA0], [CHR 0xE1, CHR 0x9A, CHR 0x80],
      [CHR 0xE2, CHR 0x80, CHR 0x80], [CHR 0xE2, CHR 0x80, CHR 0x81],
      [CHR 0xE2, CHR 0x80, CHR 0x82], [CHR 0xE2, CHR 0x80, CHR 0x83],
      [CHR 0xE2, CHR 0x80, CHR 0x84], [CHR 0xE2, CHR 0x80, CHR 0x85],
      [CHR 0xE2, CHR 0x80, CHR 0x86], [CHR 0xE2, CHR 0x80, CHR 0x87],
      [CHR 0xE2, CHR 0x80, CHR 0x88], [CHR 0xE2, CHR 0x80, CHR 0x89],
      [CHR 0xE2, CHR 0x80, CHR 0x8A], [CHR 0xE2, CHR 0x80, CHR 0xA8],
      [CHR 0xE2, CHR 0x80, CHR 0xA9], [CHR 0xE2, CHR 0x80, CHR 0xAF],
      [CHR 0xE2, CHR 0x81, CHR 0x9F], [CHR 0xE3, CHR 0x80, CHR 0x80],
      [CHR 0xEF, CHR 0xBB, CHR 0xBF]]"

definition starts_with :: "string \<Rightarrow> string \<Rightarrow> bool" where
  "starts_with s w = (take (length w) s = w)"

function strip_leading :: "string list \<Rightarrow> string \<Rightarrow> string" where
  "strip_leading ws s =
     (case find (\<lambda>w. w \<noteq> [] \<and> starts_with s w) ws of
        None \<Rightarrow> s
      | Some w \<Rightarrow> strip_leading ws (drop (length w) s))"
  by pat_completeness auto
termination
proof (relation "measure (\<lambda>(ws, s). length s)")
  show "wf (measure (\<lambda>(ws, s). length s))" by simp
next
  fix ws :: "string list" and s w :: string
  assume "find (\<lambda>w. w \<noteq> [] \<and> starts_with s w) ws = Some w"
  then have "w \<noteq> []" and "take (length w) s = w"
    by (auto simp: find_Some_iff starts_with_def)
  then have "s \<noteq> []" by auto
  with \<open>w \<noteq> []\<close> show "((ws, drop (length w) s), (ws, s)) \<in> measure (\<lambda>(ws, s). length s)"
    by simp
qed

declare strip_leading.simps [simp del]

definition trim :: "string \<Rightarrow> string" where
  "trim s = rev (strip_leading (map rev js_whitespace) (rev (strip_leading js_whitespace s)))"

text \<open>
  \<open>toUpperCase\<close> on the ASCII letters (the tab identifiers it is applied to are ASCII
  literals), and \<open>replace\<close> with a one-character pattern, which replaces the first
  occurrence only.
\<close>

definition toUpperCase :: "string \<Rightarrow> string" where
  "toUpperCase s =
     map (\<lambda>c. if 97 \<le> (of_char c :: nat) \<and> (of_char c :: nat) \<le> 122
               then char_of ((of_char c :: nat) - 32) else c) s"

fun replace :: "char \<Rightarrow> char \<Rightarrow> string \<Rightarrow> string" where
  "replace a b [] = []"
| "replace a b (c # cs) = (if c = a then b # cs else c # replace a b cs)"

section \<open>JSON.stringify and JSON.parse\<close>

text \<open>
  The state token is written with \<open>JSON.stringify\<close> and read with \<open>JSON.parse\<close>, the
  built-ins of the language. They are modelled here after ECMA-262 and ECMA-404 on the
  values JSON can carry. A number is kept as its literal, where the language has a
  double, and the members of a parsed object are kept in the order of the text, where
  the language lists the keys that are array indices first; the state object has string
  values and no such key.
  \<open>JUndefined\<close> is the value of a property an object literal sets to \<open>undefined\<close>;
  \<open>JSON.parse\<close> never yields it.
\<close>

datatype jsvalue =
    JUndefined
  | JNull
  | JBool bool
  | JNum string
  | JStr string
  | JArr "jsvalue list"
  | JObj "(string \<times> jsvalue) list"

datatype error = SyntaxError

subsection \<open>Serialisation\<close>

text \<open>
  \<open>quote\<close> is QuoteJSONString: the double quote and the backslash are escaped, the
  control characters below U+0020 are written with their short escape or as
  a backslash, \<open>u00\<close> and two lowercase hexadecimal digits, every other byte is
  copied.
\<close>

definition hex_digit :: "nat \<Rightarrow> char" where
  "hex_digit n = ''0123456789abcdef'' ! n"

definition escape_char :: "char \<Rightarrow> string" where
  "escape_char c =
     (if c = CHR 0x22 then [CHR 0x5C, CHR 0x22]
      else if c = CHR 0x5C then [CHR 0x5C, CHR 0x5C]
      else if c = CHR 0x08 then [CHR 0x5C, CHR ''b'']
      else if c = CHR 0x0C then [CHR 0x5C, CHR ''f'']
      else if c = CHR 0x0A then [CHR 0x5C, CHR ''n'']
      else if c = CHR 0x0D then [CHR 0x5C, CHR ''r'']
      else if c = CHR 0x09 then [CHR 0x5C, CHR ''t'']
      else if (of_char c :: nat) < 0x20 then
        [CHR 0x5C, CHR ''u'', CHR ''0'', CHR ''0'',
         hex_digit (of_char c div 16), hex_digit (of_char c mod 16)]
      else [c])"

definition quote :: "string \<Rightarrow> string" where
  "quote s = [CHR 0x22] @ concat (map escape_char s) @ [CHR 0x22]"

text \<open>
  \<open>JSON.stringify\<close> returns \<open>undefined\<close> (here \<open>None\<close>) for \<open>undefined\<close>, writes
  \<open>null\<close> for an undefined array element, and leaves out an object member whose value
  is undefined.
\<close>

fun JSON_stringify :: "jsvalue \<Rightarrow> string option"
  and stringify_elements :: "jsvalue list \<Rightarrow> string list"
  and stringify_members :: "(string \<times> jsvalue) list \<Rightarrow> string list" where
  "JSON_stringify JUndefined = None"
| "JSON_stringify JNull = Some ''null''"
| "JSON_stringify (JBool b) = Some (if b then ''true'' else ''false'')"
| "JSON_stringify (JNum n) = Some n"
| "JSON_stringify (JStr s) = Some (quote s)"
| "JSON_stringify (JArr vs) = Some (''['' @ join '','' (stringify_elements vs) @ '']'')"
| "JSON_stringify (JObj ms) = Some (''{'' @ join '','' (stringify_members ms) @ ''}'')"
| "stringify_elements [] = []"
| "stringify_elements (v # vs) =
     (case JSON_stringify v of None \<Rightarrow> ''null'' | Some t \<Rightarrow> t) # stringify_elements vs"
| "stringify_members [] = []"
| "stringify_members ((k, v) # ms) =
     (case JSON_stringify v of
        None \<Rightarrow> stringify_members ms
      | Some t \<Rightarrow> (quote k @ '':'' @ t) # stringify_members ms)"

subsection \<open>The lexer\<close>

text \<open>
  The lexer reads the JSON text from the left. A string token carries its decoded
  contents; \<open>lex_string\<close> and \<open>lex_escape\<close> return, with what they decoded, how many
  characters they read, and the caller drops that many. An escape of four hexadecimal
  digits is a UTF-16 code unit: a high surrogate followed by an escaped low surrogate is one code
  point, and the code point is stored as its UTF-8 bytes (a surrogate on its own as the
  three bytes of that pattern). An unescaped control character ends the parse with a
  syntax error, as does an unknown escape.
\<close>

datatype token =
    TLBrace | TRBrace | TLBracket | TRBracket | TColon | TComma
  | TString string | TNumber string | TTrue | TFalse | TNull

definition hex_value :: "char \<Rightarrow> nat option" where
  "hex_value c =
     (let n = (of_char c :: nat) in
      if 48 \<le> n \<and> n \<le> 57 then Some (n - 48)
      else if 97 \<le> n \<and> n \<le> 102 then Some (n - 87)
      else if 65 \<le> n \<and> n \<le> 70 then Some (n - 55)
      else None)"

fun hex4 :: "string \<Rightarrow> nat option" where
  "hex4 (a # b # c # d # cs) =
     (case (hex_value a, hex_value b, hex_value c, hex_value d) of
        (Some w, Some x, Some y, Some z) \<Rightarrow> Some (((w * 16 + x) * 16 + y) * 16 + z)
      | _ \<Rightarrow> None)"
| "hex4 _ = None"

definition utf8_encode :: "nat \<Rightarrow> string" where
  "utf8_encode n =
     (if n < 0x80 then [char_of n]
      else if n < 0x800 then [char_of (0xC0 + n div 64), char_of (0x80 + n mod 64)]
      else if n < 0x10000 then
        [char_of (0xE0 + n div 4096), char_of (0x80 + n div 64 mod 64), char_of (0x80 + n mod 64)]
      else
        [char_of (0xF0 + n div 262144), char_of (0x80 + n div 4096 mod 64),
         char_of (0x80 + n div 64 mod 64), char_of (0x80 + n mod 64)])"

definition low_surrogate_escape :: "string \<Rightarrow> nat option" where
  "low_surrogate_escape cs =
     (case cs of
        b # u # r \<Rightarrow>
          if b = CHR 0x5C \<and> u = CHR ''u'' then
            (case hex4 r of
               None \<Rightarrow> None
             | Some m \<Rightarrow> if 0xDC00 \<le> m \<and> m \<le> 0xDFFF then Some m else None)
          else None
      | _ \<Rightarrow> None)"

definition unicode_escape :: "string \<Rightarrow> (string \<times> nat) option" where
  "unicode_escape cs =
     (case hex4 cs of
        None \<Rightarrow> None
      | Some n \<Rightarrow>
          if 0xD800 \<le> n \<and> n \<le> 0xDBFF then
            (case low_surrogate_escape (drop 4 cs) of
               None \<Rightarrow> Some (utf8_encode n, 4)
             | Some m \<Rightarrow> Some (utf8_encode (0x10000 + (n - 0xD800) * 1024 + (m - 0xDC00)), 10))
          else Some (utf8_encode n, 4))"

fun lex_escape :: "string \<Rightarrow> (string \<times> nat) option" where
  "lex_escape [] = None"
| "lex_escape (e # cs) =
     (if e = CHR 0x22 then Some ([CHR 0x22], 1)
      else if e = CHR 0x5C then Some ([CHR 0x5C], 1)
      else if e = CHR ''/'' then Some (''/'', 1)
      else if e = CHR ''b'' then Some ([CHR 0x08], 1)
      else if e = CHR ''f'' then Some ([CHR 0x0C], 1)
      else if e = CHR ''n'' then Some ([CHR 0x0A], 1)
      else if e = CHR ''r'' then Some ([CHR 0x0D], 1)
      else if e = CHR ''t'' then Some ([CHR 0x09], 1)
      else if e = CHR ''u'' then
        (case unicode_escape cs of None \<Rightarrow> None | Some (bytes, k) \<Rightarrow> Some (bytes, 1 + k))
      else None)"

fun lex_string :: "string \<Rightarrow> (string \<times> nat) option" where
  "lex_string [] = None"
| "lex_string (c # cs) =
     (if c = CHR 0x22 then Some ([], 1)
      else if c = CHR 0x5C then
        (case lex_escape cs of
           None \<Rightarrow> None
         | Some (bytes, k) \<Rightarrow>
             (case lex_string (drop k cs) of
                None \<Rightarrow> None
              | Some (s, n) \<Rightarrow> Some (bytes @ s, 1 + k + n)))
      else if (of_char c :: nat) < 0x20 then None
      else (case lex_string cs of None \<Rightarrow> None | Some (s, n) \<Rightarrow> Some (c # s, 1 + n)))"

text \<open>
  A number is an optional minus sign, an integer part (a single zero, or digits that
  do not start with zero), an optional fraction (a point and digits) and an optional
  exponent (e or E, an optional sign, digits); \<open>lex_number\<close> returns the longest
  such prefix of the text.
\<close>

definition is_digit :: "char \<Rightarrow> bool" where
  "is_digit c = (48 \<le> (of_char c :: nat) \<and> (of_char c :: nat) \<le> 57)"

definition lex_fraction :: "string \<Rightarrow> string option" where
  "lex_fraction cs =
     (case cs of
        [] \<Rightarrow> Some []
      | c # r \<Rightarrow>
          if c = CHR ''.'' then
            (if takeWhile is_digit r = [] then None else Some (c # takeWhile is_digit r))
          else Some [])"

definition lex_exponent :: "string \<Rightarrow> string option" where
  "lex_exponent cs =
     (case cs of
        [] \<Rightarrow> Some []
      | e # r \<Rightarrow>
          if e = CHR ''e'' \<or> e = CHR ''E'' then
            (let sg = (case r of [] \<Rightarrow> []
                       | s # t \<Rightarrow> if s = CHR ''+'' \<or> s = CHR ''-'' then [s] else []);
                 ds = takeWhile is_digit (drop (length sg) r)
             in if ds = [] then None else Some (e # sg @ ds))
          else Some [])"

definition lex_number :: "string \<Rightarrow> string option" where
  "lex_number cs =
     (let sg = (case cs of [] \<Rightarrow> [] | c # r \<Rightarrow> if c = CHR ''-'' then [c] else []);
          r0 = drop (length sg) cs;
          ip = (case r0 of [] \<Rightarrow> []
                | c # r \<Rightarrow> if c = CHR ''0'' then [c] else takeWhile is_digit r0)
      in if ip = [] then None
         else (case lex_fraction (drop (length ip) r0) of
                 None \<Rightarrow> None
               | Some fp \<Rightarrow>
                   (case lex_exponent (drop (length ip + length fp) r0) of
                      None \<Rightarrow> None
                    | Some ep \<Rightarrow> Some (sg @ ip @ fp @ ep))))"

definition emit :: "token \<Rightarrow> token list option \<Rightarrow> token list option" where
  "emit t r = map_option ((#) t) r"

fun lex :: "string \<Rightarrow> token list option" where
  "lex [] = Some []"
| "lex (c # cs) =
     (if c = CHR 0x20 \<or> c = CHR 0x09 \<or> c = CHR 0x0A \<or> c = CHR 0x0D then lex cs
      else if c = CHR ''{'' then emit TLBrace (lex cs)
      else if c = CHR ''}'' then emit TRBrace (lex cs)
      else if c = CHR ''['' then emit TLBracket (lex cs)
      else if c = CHR '']'' then emit TRBracket (lex cs)
      else if c = CHR '':'' then emit TColon (lex cs)
      else if c = CHR '','' then emit TComma (lex cs)
      else if c = CHR 0x22 then
        (case lex_string cs of
           None \<Rightarrow> None
         | Some (s, n) \<Rightarrow> emit (TString s) (lex (drop n cs)))
      else if c = CHR ''t'' then
        (if take 3 cs = ''rue'' then emit TTrue (lex (drop 3 cs)) else None)
      else if c = CHR ''f'' then
        (if take 4 cs = ''alse'' then emit TFalse (lex (drop 4 cs)) else None)
      else if c = CHR ''n'' then
        (if take 3 cs = ''ull'' then emit TNull (lex (drop 3 cs)) else None)
      else
        (case lex_number (c # cs) of
           None \<Rightarrow> None
         | Some l \<Rightarrow> emit (TNumber l) (lex (drop (length l - 1) cs))))"

subsection \<open>The parser\<close>

text \<open>
  The parser reads the tokens one at a time. Its state is what the grammar allows next
  and the stack of the arrays and objects that are still open: an array with the
  elements read so far, an object with its members, an object with its members and the
  key whose value is being read. A member whose key is already there takes the place
  of the earlier one, as a property assignment does.
\<close>

datatype frame =
    FArr "jsvalue list"
  | FObj "(string \<times> jsvalue) list"
  | FKey "(string \<times> jsvalue) list" string

datatype expect =
    Value | ValueOrClose | KeyOrClose | Key | Colon | CommaOrClose | Finished jsvalue

fun define_property ::
  "string \<Rightarrow> jsvalue \<Rightarrow> (string \<times> jsvalue) list \<Rightarrow> (string \<times> jsvalue) list" where
  "define_property k v [] = [(k, v)]"
| "define_property k v ((k', v') # ms) =
     (if k = k' then (k, v) # ms else (k', v') # define_property k v ms)"

fun reduce :: "jsvalue \<Rightarrow> frame list \<Rightarrow> (expect \<times> frame list) option" where
  "reduce v [] = Some (Finished v, [])"
| "reduce v (FArr vs # st) = Some (CommaOrClose, FArr (vs @ [v]) # st)"
| "reduce v (FKey ms k # st) = Some (CommaOrClose, FObj (define_property k v ms) # st)"
| "reduce v (FObj ms # st) = None"

fun begin_value :: "token \<Rightarrow> frame list \<Rightarrow> (expect \<times> frame list) option" where
  "begin_value TLBracket st = Some (ValueOrClose, FArr [] # st)"
| "begin_value TLBrace st = Some (KeyOrClose, FObj [] # st)"
| "begin_value (TString s) st = reduce (JStr s) st"
| "begin_value (TNumber n) st = reduce (JNum n) st"
| "begin_value TTrue st = reduce (JBool True) st"
| "begin_value TFalse st = reduce (JBool False) st"
| "begin_value TNull st = reduce JNull st"
| "begin_value _ st = None"

fun step :: "expect \<times> frame list \<Rightarrow> token \<Rightarrow> (expect \<times> frame list) option" where
  "step (Value, st) t = begin_value t st"
| "step (ValueOrClose, FArr vs # st) TRBracket = reduce (JArr vs) st"
| "step (ValueOrClose, st) t = begin_value t st"
| "step (KeyOrClose, FObj ms # st) TRBrace = reduce (JObj ms) st"
| "step (KeyOrClose, FObj ms # st) (TString k) = Some (Colon, FKey ms k # st)"
| "step (Key, FObj ms # st) (TString k) = Some (Colon, FKey ms k # st)"
| "step (Colon, st) TColon = Some (Value, st)"
| "step (CommaOrClose, FArr vs # st) TComma = Some (Value, FArr vs # st)"
| "step (CommaOrClose, FArr vs # st) TRBracket = reduce (JArr vs) st"
| "step (CommaOrClose, FObj ms # st) TComma = Some (Key, FObj ms # st)"
| "step (CommaOrClose, FObj ms # st) TRBrace = reduce (JObj ms) st"
| "step _ _ = None"

fun parse_tokens :: "expect \<times> frame list \<Rightarrow> token list \<Rightarrow> jsvalue option" where
  "parse_tokens (Finished v, []) [] = Some v"
| "parse_tokens s [] = None"
| "parse_tokens s (t # ts) =
     (case step s t of None \<Rightarrow> None | Some s' \<Rightarrow> parse_tokens s' ts)"

text \<open>\<open>JSON.parse\<close> throws a \<open>SyntaxError\<close> on a text that is not JSON.\<close>

definition JSON_parse :: "string \<Rightarrow> error + jsvalue" where
  "JSON_parse src =
     (case lex src of
        None \<Rightarrow> Inl SyntaxError
      | Some ts \<Rightarrow>
          (case parse_tokens (Value, []) ts of None \<Rightarrow> Inl SyntaxError | Some v \<Rightarrow> Inr v))"

text \<open>Reading a property of a parsed value: \<open>undefined\<close> when it is not there.\<close>

fun get_property :: "jsvalue \<Rightarrow> string \<Rightarrow> jsvalue" where
  "get_property (JObj ms) k = (case map_of ms k of None \<Rightarrow> JUndefined | Some v \<Rightarrow> v)"
| "get_property _ k = JUndefined"

section \<open>The Block Kit document\<close>

text \<open>
  The builders return object literals of a few fixed shapes. Each shape is a constructor;
  a property that a literal may leave out (or set to \<open>undefined\<close>) is an
  \<^typ>\<open>'a option\<close>. The type tag of an object is its constructor. A view is the object
  the composers return and the platform echoes back with an interaction.
\<close>

datatype text_object = Mrkdwn string | PlainText string

datatype confirm_dialog = Confirm (confirm_title: text_object) (confirm_text: text_object)

datatype option_object = OptionObject (option_text: text_object) (option_value: string)

datatype element =
    Button (action_id: "string option") (label: text_object) (style: "string option")
      (button_value: "string option") (confirm: "confirm_dialog option")
  | Overflow (action_id: "string option") (options: "option_object list")

datatype block =
    Section (block_id: "string option") (section_text: text_object)
      (accessory: "element option")
  | Context (context_elements: "text_object list")
  | Actions (block_id: "string option") (action_elements: "element list")
  | Divider

record View =
  view_type :: string
  private_metadata :: "string option"
  blocks :: "block list"

section \<open>Domain records (data/models.ts)\<close>

text \<open>
  The status, priority, likelihood and impact types are unions of string literals: at
  run time they are strings, and the cards interpolate them as such.
\<close>

record Project =
  p_id :: string
  p_name :: string
  p_description :: "string option"

record Task =
  t_id :: string
  t_projectId :: string
  t_title :: string
  t_description :: "string option"
  t_status :: string
  t_priority :: string
  t_owner :: string
  t_dueDate :: "string option"
  t_lastUpdated :: string
  t_linkedRiskIds :: "string list option"

record Risk =
  r_id :: string
  r_projectId :: string
  r_title :: string
  r_description :: string
  r_likelihood :: string
  r_impact :: string
  r_owner :: string
  r_mitigationPlan :: "string option"
  r_status :: string
  r_relatedTaskIds :: "string list option"
  r_lastUpdated :: string

section \<open>Navigation (ui/nav.ts)\<close>

text \<open>
  \<open>buildProjectNav\<close> pushes one context block, then one section per project in a
  \<open>forEach\<close>, then a divider. \<open>selectedId === p.id\<close> compares an optional string with
  a string.
\<close>

definition nav_row :: "string option \<Rightarrow> Project \<Rightarrow> block" where
  "nav_row selectedId p =
     Section (Some (''nav_'' @ p_id p))
       (Mrkdwn ((if selectedId = Some (p_id p) then BULLET else WHITE_BULLET)
                 @ '' *'' @ p_name p @ ''*''))
       (Some (Button (Some (''nav_open_'' @ p_id p))
                (PlainText (if selectedId = Some (p_id p) then ''Open'' else ''View''))
                None (Some (p_id p)) None))"

definition buildProjectNav :: "Project list \<Rightarrow> string option \<Rightarrow> block list" where
  "buildProjectNav projects selectedId =
     [Context [Mrkdwn ''*Projects*'']] @ map (nav_row selectedId) projects @ [Divider]"

text \<open>
  What a row of the navigation carries beyond its look: the block id, and the action
  id and value of its button. \<open>presentation_erased\<close> blanks the two places where the
  selection shows, the section's text and the button's label.
\<close>

fun label_erased :: "element \<Rightarrow> element" where
  "label_erased (Button a l s v c) = Button a (PlainText []) s v c"
| "label_erased (Overflow a os) = Overflow a os"

fun presentation_erased :: "block \<Rightarrow> block" where
  "presentation_erased (Section b t a) = Section b (Mrkdwn []) (map_option label_erased a)"
| "presentation_erased (Context es) = Context es"
| "presentation_erased (Actions b es) = Actions b es"
| "presentation_erased Divider = Divider"

fun block_id_of :: "block \<Rightarrow> string option" where
  "block_id_of (Section b t a) = b"
| "block_id_of (Context es) = None"
| "block_id_of (Actions b es) = b"
| "block_id_of Divider = None"

fun accessory_ids :: "block \<Rightarrow> (string option \<times> string option) option" where
  "accessory_ids (Section b t (Some (Button a l s v c))) = Some (a, v)"
| "accessory_ids (Section b t (Some (Overflow a os))) = Some (a, None)"
| "accessory_ids (Section b t None) = None"
| "accessory_ids (Context es) = None"
| "accessory_ids (Actions b es) = None"
| "accessory_ids Divider = None"

section \<open>Header of the project view (ui/header.ts)\<close>

text \<open>
  The parameter object of \<open>buildHeader\<close> has an optional icon and an optional subtitle;
  \<open>??\<close> supplies the default of an absent one. The template literal is trimmed.
\<close>

record HeaderParams =
  h_icon :: "string option"
  h_title :: string
  h_subtitle :: "string option"

definition buildHeader :: "HeaderParams \<Rightarrow> block" where
  "buildHeader h =
     Section (Some ''hdr'')
       (Mrkdwn (trim (''*'' @ or_else (h_icon h) BLUE_BOOK @ '' '' @ h_title h @ ''*'' @ NL
                      @ ''_'' @ or_else (h_subtitle h) [] @ ''_'')))
       None"

section \<open>Tab bar of the project view (ui/tabs.ts)\<close>

text \<open>
  \<open>ProjectTab\<close> is a union of three string literals; a value of it is a string at run
  time, and the handlers cast the button's value to it unchecked. The active tab is
  therefore a \<^typ>\<open>string\<close>.
\<close>

definition project_tabs :: "(string \<times> string) list" where
  "project_tabs = [(''Summary'', ''summary''), (''Tasks'', ''tasks''), (''Risks'', ''risks'')]"

definition buildProjectTabs :: "string \<Rightarrow> block" where
  "buildProjectTabs active =
     Actions (Some ''tabs'')
       (map (\<lambda>(t_text, t_value).
               Button (Some (''tab_'' @ t_value)) (PlainText t_text)
                 (if active = t_value then Some ''primary'' else None)
                 (Some t_value) None)
            project_tabs)"

section \<open>Task and risk cards (ui/cards.ts)\<close>

definition buildTaskCard :: "Task \<Rightarrow> block list" where
  "buildTaskCard t =
     [Section (Some (''task_'' @ t_id t))
        (Mrkdwn (''*'' @ CARD_INDEX_DIVIDERS @ '' '' @ t_title t @ ''*  _('' @ t_status t
                 @ '' '' @ BULLET @ '' '' @ t_priority t @ '')_'' @ NL
                 @ or_else (t_description t) []))
        (Some (Overflow (Some (''task_menu_'' @ t_id t))
           [OptionObject (PlainText ''Open'') (''open_'' @ t_id t),
            OptionObject (PlainText ''Edit'') (''edit_'' @ t_id t),
            OptionObject (PlainText ''Change status'') (''status_'' @ t_id t),
            OptionObject (PlainText ''Archive'') (''archive_'' @ t_id t)])),
      Context
        [Mrkdwn (''*Owner:* <@'' @ t_owner t @ ''>  '' @ BULLET @ ''  *Due:* ''
                 @ or_else (t_dueDate t) EM_DASH @ ''  '' @ BULLET @ ''  *Updated:* ''
                 @ t_lastUpdated t)],
      Divider]"

definition buildRiskCard :: "Risk \<Rightarrow> block list" where
  "buildRiskCard r =
     [Section (Some (''risk_'' @ r_id r))
        (Mrkdwn (''*'' @ WARNING_SIGN @ '' '' @ r_title r @ ''*  _('' @ r_likelihood r @ '' ''
                 @ MULTIPLICATION_SIGN @ '' '' @ r_impact r @ '')_'' @ NL @ r_description r))
        (Some (Overflow (Some (''risk_menu_'' @ r_id r))
           [OptionObject (PlainText ''Open'') (''open_'' @ r_id r),
            OptionObject (PlainText ''Edit'') (''edit_'' @ r_id r),
            OptionObject (PlainText ''Update status'') (''status_'' @ r_id r),
            OptionObject (PlainText ''Close risk'') (''close_'' @ r_id r)])),
      Context
        [Mrkdwn (''*Owner:* <@'' @ r_owner r @ ''>  '' @ BULLET @ ''  *Status:* ''
                 @ r_status r @ ''  '' @ BULLET @ ''  *Updated:* '' @ r_lastUpdated r)],
      Divider]"

text \<open>\<open>flatMap\<close> is \<open>concat\<close> of \<open>map\<close>.\<close>

definition buildTaskList :: "Task list \<Rightarrow> block list" where
  "buildTaskList items = concat (map buildTaskCard items)"

definition buildRiskList :: "Risk list \<Rightarrow> block list" where
  "buildRiskList items = concat (map buildRiskCard items)"

section \<open>The project home view (ui/views.ts)\<close>

text \<open>
  The parameters of \<open>buildHomeView\<close>: the active tab defaults to \<open>summary\<close>, the task
  and risk lists to the empty list. \<open>bodyBlocks\<close> is the chain of \<open>if\<close> and \<open>else if\<close>
  that fills the array of that name; it has no final \<open>else\<close>. \<open>HomeState\<close> is the
  object literal of the state, whose \<open>selectedProjectId\<close> is \<open>undefined\<close> when no
  project is selected.
\<close>

record HomeViewParams =
  projects :: "Project list"
  selectedProject :: "Project option"
  activeTab :: "string option"
  tasks :: "Task list option"
  risks :: "Risk list option"

definition bodyBlocks :: "Project option \<Rightarrow> string \<Rightarrow> Task list \<Rightarrow> Risk list \<Rightarrow> block list" where
  "bodyBlocks selected active ts rs =
     (case selected of
        None \<Rightarrow>
          [Section (Some ''empty'')
             (Mrkdwn (''*'' @ COMPASS @ '' No project selected*'' @ NL
                      @ ''_Select one from the left to view details._''))
             (Some (Button (Some ''new_project'') (PlainText ''New Project'') None None None))]
      | Some p \<Rightarrow>
          if active = ''summary'' then
            [Section None
               (Mrkdwn (''*Project Summary*'' @ NL
                        @ or_else (p_description p) ''_No description_''))
               None,
             Context
               [Mrkdwn (''*Tasks:* '' @ show_nat (length ts) @ ''  '' @ BULLET
                        @ ''  *Risks:* '' @ show_nat (length rs))]]
          else if active = ''tasks'' then
            [Section None (Mrkdwn ''*Tasks*'')
               (Some (Button (Some ''task_new'') (PlainText ''New Task'') None None None)),
             Divider]
            @ (if length ts \<noteq> 0 then buildTaskList ts
               else [Section None
                       (Mrkdwn (''*No tasks yet*'' @ NL
                                @ ''_Add your first task to get rolling._''))
                       (Some (Button (Some ''task_new'') (PlainText ''Add Task'')
                                None None None))])
          else if active = ''risks'' then
            [Section None (Mrkdwn ''*Risks*'')
               (Some (Button (Some ''risk_new'') (PlainText ''New Risk'') None None None)),
             Divider]
            @ (if length rs \<noteq> 0 then buildRiskList rs
               else [Section None
                       (Mrkdwn (''*No risks captured*'' @ NL
                                @ ''_Add the first risk to start mitigation planning._''))
                       (Some (Button (Some ''risk_new'') (PlainText ''Add Risk'')
                                None None None))])
          else [])"

definition HomeState :: "string option \<Rightarrow> string option \<Rightarrow> jsvalue" where
  "HomeState selectedProjectId tab =
     JObj [(''selectedProjectId'',
            case selectedProjectId of None \<Rightarrow> JUndefined | Some s \<Rightarrow> JStr s),
           (''activeTab'', case tab of None \<Rightarrow> JUndefined | Some s \<Rightarrow> JStr s)]"

definition buildHomeView :: "HomeViewParams \<Rightarrow> View" where
  "buildHomeView params =
     (let selected = selectedProject params;
          active = or_else (activeTab params) ''summary'';
          ts = or_else (tasks params) [];
          rs = or_else (risks params) [];
          leftNav = buildProjectNav (projects params) (map_option p_id selected);
          header = buildHeader
            \<lparr>h_icon = Some BLUE_BOOK,
             h_title = or_else (map_option p_name selected) ''AI Project Hub'',
             h_subtitle = Some (if selected \<noteq> None then ''Your calm command center''
                                else ''Choose a project to begin'')\<rparr>;
          tabBar = (if selected \<noteq> None then Some (buildProjectTabs active) else None);
          state = HomeState (map_option p_id selected) (Some active)
      in \<lparr>view_type = ''home'',
          private_metadata = JSON_stringify state,
          blocks = leftNav @ [header, Divider]
                   @ (case tabBar of None \<Rightarrow> [] | Some tb \<Rightarrow> [tb, Divider])
                   @ bodyBlocks selected active ts rs\<rparr>)"

section \<open>Reading the state back (handlers/home.ts)\<close>

text \<open>
  \<open>getStateFromView\<close> evaluates \<open>view?.private_metadata\<close>; when it is truthy (present
  and not the empty string) it parses it, otherwise the state is the empty object.
  \<open>getStateFromView_try\<close> is the body of the \<open>try\<close>, which can throw; the \<open>catch\<close>
  returns the empty object.
\<close>

definition getStateFromView_try :: "View option \<Rightarrow> error + jsvalue" where
  "getStateFromView_try view =
     (case (case view of None \<Rightarrow> None | Some v \<Rightarrow> private_metadata v) of
        None \<Rightarrow> Inr (JObj [])
      | Some pm \<Rightarrow> if pm \<noteq> [] then JSON_parse pm else Inr (JObj []))"

definition getStateFromView :: "View option \<Rightarrow> error + jsvalue" where
  "getStateFromView view =
     (case getStateFromView_try view of
        Inl e \<Rightarrow> Inr (JObj [])
      | Inr state \<Rightarrow> Inr state)"

section \<open>Design tokens (ui/types.ts)\<close>

definition ICONS_PIN :: string where "ICONS_PIN = PUSHPIN"
definition ICONS_CHECK :: string where "ICONS_CHECK = CHECK_MARK"
definition ICONS_FOLDER :: string where "ICONS_FOLDER = CARD_INDEX_DIVIDERS"
definition ICONS_COMPASS :: string where "ICONS_COMPASS = COMPASS"
definition ICONS_SETTINGS :: string where "ICONS_SETTINGS = GEAR"
definition ICONS_USER :: string where "ICONS_USER = BUST"

text \<open>
  \<open>ACTION_IDS\<close> is read by a computed key in \<open>buildTabs\<close>, so it is a table; a key that
  is not in it reads as \<open>undefined\<close>.
\<close>

definition ACTION_IDS :: "(string \<times> string) list" where
  "ACTION_IDS =
     [(''TAB_OVERVIEW'', ''tab_overview''),
      (''TAB_MY_UPDATES'', ''tab_my_updates''),
      (''TAB_ADMIN'', ''tab_admin''),
      (''TOGGLE_PREFIX'', ''toggle_''),
      (''CARD_ACTION_PREFIX'', ''card_action_''),
      (''HEADER_ACTION_PREFIX'', ''header_action_'')]"

definition CARD_ACTION_PREFIX :: string where "CARD_ACTION_PREFIX = ''card_action_''"
definition BLOCK_IDS_HOME_HEADER :: string where "BLOCK_IDS_HOME_HEADER = ''home_header''"
definition BLOCK_IDS_HOME_TABS :: string where "BLOCK_IDS_HOME_TABS = ''home_tabs''"
definition BLOCK_IDS_CARD_PREFIX :: string where "BLOCK_IDS_CARD_PREFIX = ''card_''"

section \<open>The update cards (ui/types.ts, ui/builders.ts)\<close>

record ActionConfirm =
  c_title :: string
  c_text :: string

record Action =
  a_id :: string
  a_text :: string
  a_style :: "string option"
  a_confirm :: "ActionConfirm option"

record Meta =
  owner :: "string option"
  date :: "string option"
  status :: "string option"

record CardItem =
  item_id :: string
  item_title :: string
  item_subtitle :: "string option"
  meta :: Meta
  item_content :: "string option"
  item_actions :: "Action list option"

record HomeTab =
  tab :: string
  items :: "CardItem list"

record HeaderConfig =
  hc_icon :: string
  hc_title :: string
  hc_subtitle :: "string option"
  hc_actions :: "Action list option"

record EmptyStateConfig =
  es_icon :: string
  es_title :: string
  es_hint :: string
  es_cta :: Action

text \<open>
  The header of the builders module is a second function of the name \<open>buildHeader\<close>;
  it is \<open>buildHeader_config\<close> here, after its parameter type.
\<close>

definition buildHeader_config :: "HeaderConfig \<Rightarrow> block list" where
  "buildHeader_config config =
     [Section (Some BLOCK_IDS_HOME_HEADER)
        (Mrkdwn (hc_icon config @ '' *'' @ hc_title config @ ''*''
                 @ (if truthy (hc_subtitle config) then NL @ or_else (hc_subtitle config) []
                    else [])))
        (case hc_actions config of
           None \<Rightarrow> None
         | Some as \<Rightarrow>
             if length as > 0 then
               Some (Overflow (Some ''header_actions'')
                       (map (\<lambda>action. OptionObject (PlainText (a_text action)) (a_id action)) as))
             else None)]"

definition home_tabs :: "(string \<times> string \<times> string) list" where
  "home_tabs =
     [(''overview'', ''Overview'', ICONS_COMPASS),
      (''my-updates'', ''My Updates'', ICONS_USER),
      (''admin'', ''Admin'', ICONS_SETTINGS)]"

definition buildTabs :: "string \<Rightarrow> block list" where
  "buildTabs active =
     [Actions (Some BLOCK_IDS_HOME_TABS)
        (map (\<lambda>(tab_id, tab_text, tab_icon).
                Button
                  (map_of ACTION_IDS
                     (''TAB_'' @ replace (CHR ''-'') (CHR ''_'') (toUpperCase tab_id)))
                  (PlainText (tab_icon @ '' '' @ tab_text))
                  (if tab_id = active then Some ''primary'' else None)
                  (Some tab_id) None)
             home_tabs)]"

definition buildEmptyState :: "EmptyStateConfig \<Rightarrow> block list" where
  "buildEmptyState config =
     [Section None
        (Mrkdwn (es_icon config @ '' *'' @ es_title config @ ''*'' @ NL @ es_hint config))
        None,
      Actions None
        [Button (Some (a_id (es_cta config))) (PlainText (a_text (es_cta config)))
           (Some (if truthy (a_style (es_cta config))
                  then or_else (a_style (es_cta config)) [] else ''primary''))
           None None]]"

definition getStatusEmoji :: "string option \<Rightarrow> string" where
  "getStatusEmoji s =
     (if s = Some ''active'' then GREEN_CIRCLE
      else if s = Some ''paused'' then YELLOW_CIRCLE
      else if s = Some ''completed'' then CHECK_MARK
      else if s = Some ''pending'' then HOURGLASS
      else WHITE_CIRCLE)"

text \<open>
  \<open>x && `...${x}`\<close> is the template when \<open>x\<close> is truthy and \<open>x\<close> itself (falsy)
  otherwise; \<open>filter(Boolean)\<close> then drops the falsy entries. \<open>meta_entry\<close> is one
  entry after the filter: the template, or nothing.
\<close>

definition meta_entry :: "string \<Rightarrow> string option \<Rightarrow> string list" where
  "meta_entry glyph x = (if truthy x then [glyph @ '' '' @ or_else x []] else [])"

definition metaText :: "CardItem \<Rightarrow> string" where
  "metaText item =
     join ('' '' @ BULLET @ '' '')
       (meta_entry BUST (owner (meta item))
        @ meta_entry CALENDAR (date (meta item))
        @ meta_entry (getStatusEmoji (status (meta item))) (status (meta item)))"

definition card_button :: "CardItem \<Rightarrow> Action \<Rightarrow> element" where
  "card_button item action =
     Button (Some (CARD_ACTION_PREFIX @ a_id action)) (PlainText (a_text action))
       (a_style action) (Some (item_id item))
       (map_option (\<lambda>c. Confirm (PlainText (c_title c)) (Mrkdwn (c_text c))) (a_confirm action))"

definition buildCard :: "CardItem \<Rightarrow> block list" where
  "buildCard item =
     [Section (Some (BLOCK_IDS_CARD_PREFIX @ item_id item))
        (Mrkdwn (''*'' @ item_title item @ ''*''
                 @ (if truthy (item_subtitle item)
                    then NL @ ''_'' @ or_else (item_subtitle item) [] @ ''_'' else [])))
        None]
     @ (if metaText item \<noteq> [] then [Context [Mrkdwn (metaText item)]] else [])
     @ (case item_actions item of
          None \<Rightarrow> []
        | Some as \<Rightarrow>
            if length as > 0 then [Actions None (map (card_button item) as)] else [])"

text \<open>
  \<open>buildCardList\<close> is a \<open>forEach\<close> with the index: each card, and a divider when
  \<open>index < items.length - 1\<close>, a comparison of integers.
\<close>

definition buildCardList :: "CardItem list \<Rightarrow> block list" where
  "buildCardList its =
     concat (map (\<lambda>(index, item).
                    buildCard item
                    @ (if int index < int (length its) - 1 then [Divider] else []))
                 (enumerate 0 its))"

definition buildOverviewContent :: "CardItem list \<Rightarrow> block list" where
  "buildOverviewContent its =
     (if length its = 0 then
        buildEmptyState
          \<lparr>es_icon = ICONS_CHECK, es_title = ''All caught up!'',
           es_hint = ''No pending updates from your team'',
           es_cta = \<lparr>a_id = ''refresh'', a_text = ''Refresh'', a_style = None,
                     a_confirm = None\<rparr>\<rparr>
      else
        [Section None (Mrkdwn (''*Recent Updates* ('' @ show_nat (length its) @ '')'')) None,
         Divider]
        @ buildCardList (take 5 its)
        @ (if length its > 5 then
             [Section None
                (Mrkdwn (''_... and '' @ show_nat (length its - 5) @ '' more updates_''))
                None]
           else []))"

definition buildMyUpdatesContent :: "CardItem list \<Rightarrow> block list" where
  "buildMyUpdatesContent its =
     (let myItems = filter (\<lambda>item. owner (meta item) = Some ''me'') its in
      if length myItems = 0 then
        buildEmptyState
          \<lparr>es_icon = ICONS_USER, es_title = ''No updates from you'',
           es_hint = ''Share your progress with the team'',
           es_cta = \<lparr>a_id = ''create_update'', a_text = ''Create Update'',
                     a_style = Some ''primary'', a_confirm = None\<rparr>\<rparr>
      else
        [Section None (Mrkdwn (''*Your Updates* ('' @ show_nat (length myItems) @ '')'')) None,
         Divider]
        @ buildCardList myItems)"

definition buildAdminContent :: "CardItem list \<Rightarrow> block list" where
  "buildAdminContent its =
     [Section None (Mrkdwn ''*Admin Panel*'') None,
      Divider,
      Section None
        (Mrkdwn (BULLET @ '' *Total Updates:* '' @ show_nat (length its) @ NL
                 @ BULLET @ '' *Active Users:* ''
                 @ show_nat (length (remdups (map (\<lambda>i. owner (meta i)) its))) @ NL
                 @ BULLET @ '' *Pending Reviews:* ''
                 @ show_nat (length (filter (\<lambda>i. status (meta i) = Some ''pending'') its))))
        None,
      Divider,
      Actions None
        [Button (Some ''admin_manage_users'') (PlainText (ICONS_USER @ '' Manage Users''))
           None None None,
         Button (Some ''admin_settings'') (PlainText (ICONS_SETTINGS @ '' Settings''))
           None None None]]"

text \<open>
  The tab of a \<open>HomeTab\<close> is a union of three string literals, a string at run time;
  the \<open>switch\<close> of \<open>buildContent\<close> has a \<open>default\<close> for every other string.
\<close>

definition buildContent :: "HomeTab \<Rightarrow> block list" where
  "buildContent config =
     (if tab config = ''overview'' then buildOverviewContent (items config)
      else if tab config = ''my-updates'' then buildMyUpdatesContent (items config)
      else if tab config = ''admin'' then buildAdminContent (items config)
      else
        buildEmptyState
          \<lparr>es_icon = ICONS_FOLDER, es_title = ''No content available'',
           es_hint = ''Select a different tab to view content'',
           es_cta = \<lparr>a_id = ''refresh'', a_text = ''Refresh'', a_style = None,
                     a_confirm = None\<rparr>\<rparr>)"

definition buildHome :: "HomeTab \<Rightarrow> View" where
  "buildHome config =
     \<lparr>view_type = ''home'',
      private_metadata = None,
      blocks =
        buildHeader_config
          \<lparr>hc_icon = ICONS_PIN, hc_title = ''Project Updates'',
           hc_subtitle = Some ''Track team progress and manage updates'',
           hc_actions = Some [\<lparr>a_id = ''refresh'', a_text = ''Refresh'', a_style = None,
                               a_confirm = None\<rparr>]\<rparr>
        @ buildTabs (tab config)
        @ [Divider]
        @ buildContent config\<rparr>"

section \<open>Sample data\<close>

text \<open>
  The first project and the first task of data/seed.ts, and the minimal card of
  ui/__tests__/builders.test.ts; \<open>seven_updates\<close> is seven such cards, numbered,
  \<open>archived_card\<close> one with a status outside the enumeration, \<open>owned_card\<close> one
  with an owner and no status, \<open>settings_params\<close> a call with a tab outside the
  enumeration, and \<open>malformed_view\<close> a view whose
  token is not JSON.
\<close>

definition seed_p1 :: Project where
  "seed_p1 =
     \<lparr>p_id = ''p1'', p_name = ''AI Project Hub'',
      p_description = Some ''Slack-native PM hub with Notion-like UI.''\<rparr>"

definition seed_t1 :: Task where
  "seed_t1 =
     \<lparr>t_id = ''t1'', t_projectId = ''p1'', t_title = ''Home view scaffold'',
      t_description = Some ''Build header, nav, tabs, and summary.'',
      t_status = ''In Progress'', t_priority = ''High'', t_owner = ''U12345'',
      t_dueDate = Some ''2025-10-15'', t_lastUpdated = ''2025-10-10'',
      t_linkedRiskIds = None\<rparr>"

definition minimal_card :: CardItem where
  "minimal_card =
     \<lparr>item_id = ''test-2'', item_title = ''Minimal Update'', item_subtitle = None,
      meta = \<lparr>owner = None, date = None, status = None\<rparr>,
      item_content = None, item_actions = None\<rparr>"

definition seven_updates :: "CardItem list" where
  "seven_updates =
     map (\<lambda>i. minimal_card\<lparr>item_id := i\<rparr>)
       [''1'', ''2'', ''3'', ''4'', ''5'', ''6'', ''7'']"

definition archived_card :: CardItem where
  "archived_card =
     minimal_card\<lparr>meta := \<lparr>owner = None, date = None, status = Some ''archived''\<rparr>\<rparr>"

definition owned_card :: CardItem where
  "owned_card =
     minimal_card\<lparr>meta := \<lparr>owner = Some ''User1'', date = None, status = None\<rparr>\<rparr>"

definition settings_params :: HomeViewParams where
  "settings_params =
     \<lparr>projects = [seed_p1], selectedProject = Some seed_p1, activeTab = Some ''settings'',
      tasks = Some [seed_t1], risks = None\<rparr>"

definition malformed_view :: View where
  "malformed_view =
     \<lparr>view_type = ''home'', private_metadata = Some ''{selectedProjectId: p1'', blocks = []\<rparr>"

text \<open>
  The members of the state object that \<open>JSON.stringify\<close> writes: those that are not
  \<open>undefined\<close>.
\<close>

definition present_members :: "string option \<Rightarrow> string option \<Rightarrow> (string \<times> jsvalue) list" where
  "present_members selectedProjectId tb =
     (case selectedProjectId of None \<Rightarrow> [] | Some s \<Rightarrow> [(''selectedProjectId'', JStr s)])
     @ (case tb of None \<Rightarrow> [] | Some s \<Rightarrow> [(''activeTab'', JStr s)])"

text \<open>How many buttons of a tab bar carry the primary style.\<close>

definition primary_count :: "element list \<Rightarrow> nat" where
  "primary_count bs = length (filter (\<lambda>b. style b = Some ''primary'') bs)"

definition DQ :: string where \<comment> \<open>the double quote\<close>
  "DQ = [CHR 0x22]"

section \<open>Properties\<close>

subsection \<open>Numerals and trimming\<close>

lemma show_nat_2: "show_nat 2 = ''2''"
  by code_simp

lemma show_nat_7: "show_nat 7 = ''7''"
  by code_simp

lemma strip_leading_none:
  "find (\<lambda>w. w \<noteq> [] \<and> starts_with s w) ws = None \<Longrightarrow> strip_leading ws s = s"
  by (simp add: strip_leading.simps)

lemma strip_leading_star: "strip_leading js_whitespace (CHR ''*'' # s) = CHR ''*'' # s"
  by (rule strip_leading_none) (simp add: js_whitespace_def starts_with_def)

lemma strip_trailing_underscore:
  "strip_leading (map rev js_whitespace) (CHR ''_'' # s) = CHR ''_'' # s"
  by (rule strip_leading_none) (simp add: js_whitespace_def starts_with_def)

text \<open>A text that starts with an asterisk and ends with an underscore is left as it is.\<close>

lemma trim_star_underscore: "trim (CHR ''*'' # s @ ''_'') = CHR ''*'' # s @ ''_''"
  by (simp add: trim_def strip_leading_star strip_trailing_underscore)

lemma buildHeader_text:
  "buildHeader h =
     Section (Some ''hdr'')
       (Mrkdwn (''*'' @ or_else (h_icon h) BLUE_BOOK @ '' '' @ h_title h @ ''*'' @ NL
                @ ''_'' @ or_else (h_subtitle h) [] @ ''_''))
       None"
proof -
  have "trim (CHR ''*'' # (or_else (h_icon h) BLUE_BOOK @ '' '' @ h_title h @ ''*'' @ NL
                @ ''_'' @ or_else (h_subtitle h) []) @ ''_'')
        = CHR ''*'' # (or_else (h_icon h) BLUE_BOOK @ '' '' @ h_title h @ ''*'' @ NL
                @ ''_'' @ or_else (h_subtitle h) []) @ ''_''"
    by (rule trim_star_underscore)
  then show ?thesis by (simp add: buildHeader_def)
qed

subsection \<open>The lexer reads back what \<open>quote\<close> writes\<close>

lemma hex_value_hex_digit: "n < 16 \<Longrightarrow> hex_value (hex_digit n) = Some n"
proof -
  assume "n < 16"
  then have "n \<in> {0,1,2,3,4,5,6,7,8,9,10,11,12,13,14,15}" by simp presburger
  then show ?thesis
    by (auto simp: hex_value_def hex_digit_def)
qed

lemma control_escape:
  assumes "(of_char c :: nat) < 0x20"
  shows "unicode_escape (CHR ''0'' # CHR ''0'' # hex_digit (of_char c div 16)
            # hex_digit (of_char c mod 16) # t) = Some ([c], 4)"
proof -
  let ?n = "of_char c :: nat"
  have d: "?n div 16 < 16" "?n mod 16 < 16" using assms by auto
  have z: "hex_value (CHR ''0'') = Some 0" by (simp add: hex_value_def)
  have "hex4 (CHR ''0'' # CHR ''0'' # hex_digit (?n div 16) # hex_digit (?n mod 16) # t)
        = Some ?n"
    by (simp add: z hex_value_hex_digit d)
  moreover have "utf8_encode ?n = [c]" using assms by (simp add: utf8_encode_def)
  ultimately show ?thesis using assms by (simp add: unicode_escape_def)
qed

lemma lex_string_escape_char:
  "lex_string (escape_char c @ t) =
     (case lex_string t of None \<Rightarrow> None
      | Some (s, n) \<Rightarrow> Some (c # s, length (escape_char c) + n))"
proof -
  consider (quote) "c = CHR 0x22" | (bs) "c = CHR 0x5C" | (b) "c = CHR 0x08"
    | (f) "c = CHR 0x0C" | (n) "c = CHR 0x0A" | (r) "c = CHR 0x0D" | (t) "c = CHR 0x09"
    | (ctl) "c \<notin> {CHR 0x22, CHR 0x5C, CHR 0x08, CHR 0x0C, CHR 0x0A, CHR 0x0D, CHR 0x09}"
        "(of_char c :: nat) < 0x20"
    | (plain) "c \<notin> {CHR 0x22, CHR 0x5C, CHR 0x08, CHR 0x0C, CHR 0x0A, CHR 0x0D, CHR 0x09}"
        "\<not> (of_char c :: nat) < 0x20"
    by blast
  then show ?thesis
  proof cases
    case ctl
    then show ?thesis
      by (simp add: escape_char_def control_escape split: option.split)
  next
    case plain
    then show ?thesis
      by (simp add: escape_char_def split: option.split)
  qed (simp_all add: escape_char_def split: option.split)
qed

lemma lex_string_escaped:
  "lex_string (concat (map escape_char s) @ CHR 0x22 # rest)
     = Some (s, Suc (length (concat (map escape_char s))))"
  by (induction s) (simp_all add: lex_string_escape_char)

lemma lex_quote: "lex (quote s @ rest) = emit (TString s) (lex rest)"
  by (simp add: quote_def lex_string_escaped)

text \<open>
  The state object always serialises to a non-empty text, and that text parses to the
  object of its members that are not \<open>undefined\<close>.
\<close>

lemma stringify_HomeState:
  "\<exists>pm. JSON_stringify (HomeState sid tb) = Some pm \<and> pm \<noteq> []
     \<and> JSON_parse pm = Inr (JObj (present_members sid tb))"
proof (cases sid; cases tb)
  fix s t assume "sid = Some s" "tb = Some t"
  then show ?thesis
    by (simp add: HomeState_def present_members_def JSON_parse_def lex_quote emit_def)
next
  fix s assume "sid = Some s" "tb = None"
  then show ?thesis
    by (simp add: HomeState_def present_members_def JSON_parse_def lex_quote emit_def)
next
  fix t assume "sid = None" "tb = Some t"
  then show ?thesis
    by (simp add: HomeState_def present_members_def JSON_parse_def lex_quote emit_def)
next
  assume "sid = None" "tb = None"
  then show ?thesis
    by (simp add: HomeState_def present_members_def JSON_parse_def lex_quote emit_def)
qed

lemma present_members_property:
  "get_property (JObj (present_members sid tb)) k = get_property (HomeState sid tb) k"
  by (cases sid; cases tb) (simp_all add: present_members_def HomeState_def)

lemma present_members_both: "JObj (present_members (Some s) (Some t)) = HomeState (Some s) (Some t)"
  by (simp add: present_members_def HomeState_def)

lemma getStateFromView_token:
  assumes "JSON_stringify (HomeState sid tb) = Some pm"
  shows "getStateFromView (Some \<lparr>view_type = ty, private_metadata = Some pm, blocks = bs\<rparr>)
         = Inr (JObj (present_members sid tb))"
proof -
  from stringify_HomeState [of sid tb] assms
  have "pm \<noteq> []" and "JSON_parse pm = Inr (JObj (present_members sid tb))"
    by auto
  then show ?thesis
    by (simp add: getStateFromView_def getStateFromView_try_def)
qed

lemma stringify_p1_tasks:
  "JSON_stringify (HomeState (Some ''p1'') (Some ''tasks''))
     = Some (''{'' @ DQ @ ''selectedProjectId'' @ DQ @ '':'' @ DQ @ ''p1'' @ DQ @ '',''
             @ DQ @ ''activeTab'' @ DQ @ '':'' @ DQ @ ''tasks'' @ DQ @ ''}'')"
  by code_simp

subsection \<open>Cards and lists\<close>

lemma card_rows_from:
  "concat (map (\<lambda>(index, item).
                  buildCard item
                  @ (if int index < int (n + length (xs @ [x])) - 1 then [Divider] else []))
               (enumerate n (xs @ [x])))
   = concat (map (\<lambda>item. buildCard item @ [Divider]) xs) @ buildCard x"
proof (induction xs arbitrary: n)
  case Nil
  show ?case by simp
next
  case (Cons y ys)
  have "concat (map (\<lambda>(index, item).
                  buildCard item
                  @ (if int index < int (Suc n + length (ys @ [x])) - 1 then [Divider] else []))
               (enumerate (Suc n) (ys @ [x])))
        = concat (map (\<lambda>item. buildCard item @ [Divider]) ys) @ buildCard x"
    by (rule Cons.IH)
  then show ?case by simp
qed

lemma buildCardList_snoc:
  "buildCardList (xs @ [x]) = concat (map (\<lambda>item. buildCard item @ [Divider]) xs) @ buildCard x"
  using card_rows_from [of 0 xs x] by (simp add: buildCardList_def)

lemma buildCardList_Nil: "buildCardList [] = []"
  by (simp add: buildCardList_def)

lemma buildCard_no_divider: "Divider \<notin> set (buildCard item)"
  by (simp add: buildCard_def split: option.split)

lemma buildCard_minimal:
  "buildCard (minimal_card\<lparr>item_id := i\<rparr>)
     = [Section (Some (''card_'' @ i)) (Mrkdwn ''*Minimal Update*'') None]"
  by (simp add: buildCard_def minimal_card_def metaText_def meta_entry_def truthy_def
      BLOCK_IDS_CARD_PREFIX_def)

lemma buildCardList_five:
  "buildCardList [a, b, c, d, e]
     = buildCard a @ Divider # buildCard b @ Divider # buildCard c @ Divider # buildCard d
       @ Divider # buildCard e"
  using buildCardList_snoc [of "[a, b, c, d]" e] by simp

lemma getStatusEmoji_not_empty: "getStatusEmoji s \<noteq> []"
  by (simp add: getStatusEmoji_def GREEN_CIRCLE_def YELLOW_CIRCLE_def CHECK_MARK_def
      HOURGLASS_def WHITE_CIRCLE_def)

lemma getStatusEmoji_default:
  "s \<notin> {Some ''active'', Some ''paused'', Some ''completed'', Some ''pending''}
   \<Longrightarrow> getStatusEmoji s = WHITE_CIRCLE"
  by (simp add: getStatusEmoji_def)

lemma meta_entry_truthy: "s \<noteq> [] \<Longrightarrow> meta_entry g (Some s) = [g @ '' '' @ s]"
  by (simp add: meta_entry_def truthy_def or_else_def)

lemma meta_entry_falsy: "\<not> truthy x \<Longrightarrow> meta_entry g x = []"
  by (simp add: meta_entry_def)

lemma join_last_not_empty: "y \<noteq> [] \<Longrightarrow> join sep (xs @ [y]) \<noteq> []"
  by (induction sep xs rule: join.induct) auto

lemma metaText_status_shown:
  assumes "status (meta item) = Some st" and "st \<noteq> []"
    and "st \<notin> {''active'', ''paused'', ''completed'', ''pending''}"
  shows "metaText item
          = join ('' '' @ BULLET @ '' '')
              (meta_entry BUST (owner (meta item)) @ meta_entry CALENDAR (date (meta item))
               @ [WHITE_CIRCLE @ '' '' @ st])"
proof -
  have "Some st \<notin> {Some ''active'', Some ''paused'', Some ''completed'', Some ''pending''}"
    using assms(3) by simp
  then have "getStatusEmoji (Some st) = WHITE_CIRCLE"
    by (rule getStatusEmoji_default)
  then show ?thesis
    unfolding metaText_def assms(1) by (simp only: meta_entry_truthy [OF assms(2)])
qed

lemma metaText_status_shown_not_empty:
  assumes "status (meta item) = Some st" and "st \<noteq> []"
    and "st \<notin> {''active'', ''paused'', ''completed'', ''pending''}"
  shows "metaText item \<noteq> []"
proof -
  have e: "metaText item
        = join ('' '' @ BULLET @ '' '')
          ((meta_entry BUST (owner (meta item)) @ meta_entry CALENDAR (date (meta item)))
           @ [WHITE_CIRCLE @ '' '' @ st])"
    using metaText_status_shown [OF assms] by (simp only: append_assoc)
  show ?thesis
    unfolding e by (rule join_last_not_empty) (simp add: WHITE_CIRCLE_def)
qed

lemma buildCard_context:
  "metaText item \<noteq> [] \<Longrightarrow> buildCard item ! 1 = Context [Mrkdwn (metaText item)]"
  by (simp add: buildCard_def)

lemma buildCard_shape:
  "buildCard item
     = Section (Some (''card_'' @ item_id item))
         (Mrkdwn (''*'' @ item_title item @ ''*''
                  @ (if truthy (item_subtitle item)
                     then NL @ ''_'' @ or_else (item_subtitle item) [] @ ''_'' else [])))
         None
       # (if metaText item = [] then [] else [Context [Mrkdwn (metaText item)]])
       @ (case item_actions item of
            None \<Rightarrow> []
          | Some as \<Rightarrow>
              if as = [] then [] else [Actions None (map (card_button item) as)])"
  by (simp add: buildCard_def BLOCK_IDS_CARD_PREFIX_def split: option.split)

lemma metaText_status_hidden:
  assumes "\<not> truthy (status (meta item))"
  shows "metaText item
          = join ('' '' @ BULLET @ '' '')
              (meta_entry BUST (owner (meta item)) @ meta_entry CALENDAR (date (meta item)))"
  unfolding metaText_def by (simp only: meta_entry_falsy [OF assms] append_Nil2)

subsection \<open>Tab bars\<close>

lemma buildTabs_action_ids:
  "map_of ACTION_IDS (''TAB_'' @ replace (CHR ''-'') (CHR ''_'') (toUpperCase ''overview''))
     = Some ''tab_overview''"
  "map_of ACTION_IDS (''TAB_'' @ replace (CHR ''-'') (CHR ''_'') (toUpperCase ''my-updates''))
     = Some ''tab_my_updates''"
  "map_of ACTION_IDS (''TAB_'' @ replace (CHR ''-'') (CHR ''_'') (toUpperCase ''admin''))
     = Some ''tab_admin''"
  by code_simp+

lemma buildProjectTabs_buttons:
  "buildProjectTabs active
     = Actions (Some ''tabs'')
         [Button (Some ''tab_summary'') (PlainText ''Summary'')
            (if active = ''summary'' then Some ''primary'' else None) (Some ''summary'') None,
          Button (Some ''tab_tasks'') (PlainText ''Tasks'')
            (if active = ''tasks'' then Some ''primary'' else None) (Some ''tasks'') None,
          Button (Some ''tab_risks'') (PlainText ''Risks'')
            (if active = ''risks'' then Some ''primary'' else None) (Some ''risks'') None]"
  by (simp add: buildProjectTabs_def project_tabs_def)

lemma buildTabs_buttons:
  "buildTabs active
     = [Actions (Some ''home_tabs'')
         [Button (Some ''tab_overview'') (PlainText (COMPASS @ '' '' @ ''Overview''))
            (if ''overview'' = active then Some ''primary'' else None) (Some ''overview'') None,
          Button (Some ''tab_my_updates'') (PlainText (BUST @ '' '' @ ''My Updates''))
            (if ''my-updates'' = active then Some ''primary'' else None)
            (Some ''my-updates'') None,
          Button (Some ''tab_admin'') (PlainText (GEAR @ '' '' @ ''Admin''))
            (if ''admin'' = active then Some ''primary'' else None) (Some ''admin'') None]]"
  unfolding buildTabs_def home_tabs_def
  by (simp only: list.map prod.case buildTabs_action_ids BLOCK_IDS_HOME_TABS_def
      ICONS_COMPASS_def ICONS_USER_def ICONS_SETTINGS_def)

subsection \<open>The claims\<close>

text \<open>
  C1 (amended). Every list composer emits no block for the empty list. \<open>buildCardList\<close>
  emits each record's card followed by a divider, except the last record's, which no
  divider follows; a card itself holds no divider. \<open>buildTaskList\<close> and \<open>buildRiskList\<close>
  emit each record's card and nothing else; a task or risk card is three blocks of which
  the third, and only the third, is a divider, so a divider follows every record, the last
  one too.
\<close>

theorem list_composers_dividers:
  "buildCardList [] = [] \<and> buildTaskList [] = [] \<and> buildRiskList [] = []
   \<and> buildCardList (xs @ [x])
       = concat (map (\<lambda>item. buildCard item @ [Divider]) xs) @ buildCard x
   \<and> Divider \<notin> set (buildCard item)
   \<and> buildTaskList (ts @ [t]) = buildTaskList ts @ buildTaskCard t
   \<and> length (buildTaskCard t) = 3
   \<and> Divider \<notin> set (butlast (buildTaskCard t))
   \<and> last (buildTaskCard t) = Divider
   \<and> buildRiskList (rs @ [r]) = buildRiskList rs @ buildRiskCard r
   \<and> length (buildRiskCard r) = 3
   \<and> Divider \<notin> set (butlast (buildRiskCard r))
   \<and> last (buildRiskCard r) = Divider"
  by (simp add: buildCardList_snoc buildCardList_Nil buildCard_no_divider buildTaskList_def
      buildRiskList_def buildTaskCard_def buildRiskCard_def)

text \<open>
  C1 as stated fails: the task list of the one seeded task \<open>t1\<close> ends with a divider,
  after its last record.
\<close>

theorem buildTaskList_trailing_divider:
  "length (buildTaskList [seed_t1]) = 3 \<and> last (buildTaskList [seed_t1]) = Divider"
  by (simp add: buildTaskList_def buildTaskCard_def)

text \<open>
  C2. Encoding a state object with \<open>JSON.stringify\<close>, as \<open>buildHomeView\<close> does into
  \<open>private_metadata\<close>, and decoding the token with \<open>getStateFromView\<close> gives the object
  back. For the state with \<open>selectedProjectId\<close> p1 and \<open>activeTab\<close> tasks the token is
  the text written out below and the decoded object is the state itself. The same holds
  for every state with both members, whatever the two strings are; when a member is
  \<open>undefined\<close> it is left out of the token, and the decoded object has the members
  that are there and reads as \<open>undefined\<close> at every other key, as the state does. The
  view that \<open>buildHomeView\<close> returns decodes to the selected project's id (when one is
  selected) and the active tab, \<open>summary\<close> when none was given.
\<close>

theorem state_token_round_trip:
  "JSON_stringify (HomeState (Some ''p1'') (Some ''tasks''))
     = Some (''{'' @ DQ @ ''selectedProjectId'' @ DQ @ '':'' @ DQ @ ''p1'' @ DQ @ '',''
             @ DQ @ ''activeTab'' @ DQ @ '':'' @ DQ @ ''tasks'' @ DQ @ ''}'')
   \<and> getStateFromView
         (Some \<lparr>view_type = ty,
                private_metadata = JSON_stringify (HomeState (Some ''p1'') (Some ''tasks'')),
                blocks = bs\<rparr>)
       = Inr (HomeState (Some ''p1'') (Some ''tasks''))
   \<and> getStateFromView
         (Some \<lparr>view_type = ty,
                private_metadata = JSON_stringify (HomeState (Some s) (Some t)),
                blocks = bs\<rparr>)
       = Inr (HomeState (Some s) (Some t))
   \<and> getStateFromView
         (Some \<lparr>view_type = ty, private_metadata = JSON_stringify (HomeState sid tb),
                blocks = bs\<rparr>)
       = Inr (JObj (present_members sid tb))
   \<and> (\<forall>k. get_property (JObj (present_members sid tb)) k = get_property (HomeState sid tb) k)
   \<and> getStateFromView (Some (buildHomeView params))
       = Inr (JObj (present_members (map_option p_id (selectedProject params))
                      (Some (or_else (activeTab params) ''summary''))))"
proof -
  have token: "getStateFromView
         (Some \<lparr>view_type = ty, private_metadata = JSON_stringify (HomeState a b),
                blocks = bs\<rparr>)
       = Inr (JObj (present_members a b))" for a b ty bs
  proof -
    obtain pm where pm: "JSON_stringify (HomeState a b) = Some pm"
      using stringify_HomeState [of a b] by auto
    show ?thesis
      unfolding pm by (rule getStateFromView_token [OF pm])
  qed
  have both: "getStateFromView
         (Some \<lparr>view_type = ty, private_metadata = JSON_stringify (HomeState (Some a) (Some b)),
                blocks = bs\<rparr>)
       = Inr (HomeState (Some a) (Some b))" for a b
    unfolding token by (simp only: present_members_both)
  have "buildHomeView params
        = \<lparr>view_type = ''home'',
           private_metadata =
             JSON_stringify (HomeState (map_option p_id (selectedProject params))
                              (Some (or_else (activeTab params) ''summary''))),
           blocks = blocks (buildHomeView params)\<rparr>"
    by (simp add: buildHomeView_def Let_def)
  then have view: "getStateFromView (Some (buildHomeView params))
       = Inr (JObj (present_members (map_option p_id (selectedProject params))
                      (Some (or_else (activeTab params) ''summary''))))"
    by (rule ssubst) (rule token)
  show ?thesis
    by (intro conjI allI stringify_p1_tasks both token present_members_property view)
qed

text \<open>
  C3. \<open>getStateFromView\<close> returns a value for every view and never an error: the empty
  object when there is no view, when the view has no \<open>private_metadata\<close>, when that is
  the empty string, and when \<open>JSON.parse\<close> throws on it.
\<close>

theorem getStateFromView_never_throws:
  "(\<exists>state. getStateFromView view = Inr state)
   \<and> getStateFromView None = Inr (JObj [])
   \<and> getStateFromView (Some (v\<lparr>private_metadata := None\<rparr>)) = Inr (JObj [])
   \<and> getStateFromView (Some (v\<lparr>private_metadata := Some []\<rparr>)) = Inr (JObj [])
   \<and> (JSON_parse pm = Inl e \<longrightarrow>
        getStateFromView (Some (v\<lparr>private_metadata := Some pm\<rparr>)) = Inr (JObj []))"
  by (simp add: getStateFromView_def getStateFromView_try_def split: sum.split)

text \<open>
  Witness for C3: a token that opens an object and has an unquoted key is not JSON, and
  the view that carries it decodes to the empty object.
\<close>

theorem getStateFromView_never_throws_malformed:
  "JSON_parse ''{selectedProjectId: p1'' = Inl SyntaxError
   \<and> getStateFromView (Some malformed_view) = Inr (JObj [])"
proof -
  have bad: "JSON_parse ''{selectedProjectId: p1'' = Inl SyntaxError"
    by code_simp
  have "malformed_view\<lparr>private_metadata := Some ''{selectedProjectId: p1''\<rparr> = malformed_view"
    by (simp add: malformed_view_def)
  with getStateFromView_never_throws
    [of _ malformed_view "''{selectedProjectId: p1''" SyntaxError] bad
  show ?thesis by simp
qed

text \<open>
  C4. For a list of more than five cards the overview content is the heading with the
  count, a divider, the card list of the first five cards in input order, and one
  trailing section whose text is the note \<open>... and N more updates\<close> between the two
  underscores of mrkdwn italics, N being the length less five. For one to five cards it
  is the heading, the divider and the card list of all of them, with no note; for no card
  it is the empty state.
\<close>

theorem overview_truncation:
  "(5 < length its \<longrightarrow>
      buildOverviewContent its
        = [Section None (Mrkdwn (''*Recent Updates* ('' @ show_nat (length its) @ '')'')) None,
           Divider]
          @ buildCardList (take 5 its)
          @ [Section None
               (Mrkdwn (''_'' @ ''... and '' @ show_nat (length its - 5) @ '' more updates''
                        @ ''_''))
               None])
   \<and> (0 < length its \<and> length its \<le> 5 \<longrightarrow>
      buildOverviewContent its
        = [Section None (Mrkdwn (''*Recent Updates* ('' @ show_nat (length its) @ '')'')) None,
           Divider]
          @ buildCardList its)
   \<and> (length its = 0 \<longrightarrow>
      buildOverviewContent its
        = [Section None
             (Mrkdwn (CHECK_MARK @ '' *All caught up!*'' @ NL
                      @ ''No pending updates from your team''))
             None,
           Actions None
             [Button (Some ''refresh'') (PlainText ''Refresh'') (Some ''primary'') None None]])"
  by (simp add: buildOverviewContent_def buildEmptyState_def truthy_def ICONS_CHECK_def)

text \<open>
  Witness for C4: seven cards render as the first five and the note for two more.
\<close>

theorem overview_truncation_seven:
  "5 < length seven_updates
   \<and> buildOverviewContent seven_updates
       = [Section None (Mrkdwn ''*Recent Updates* (7)'') None,
          Divider,
          Section (Some ''card_1'') (Mrkdwn ''*Minimal Update*'') None,
          Divider,
          Section (Some ''card_2'') (Mrkdwn ''*Minimal Update*'') None,
          Divider,
          Section (Some ''card_3'') (Mrkdwn ''*Minimal Update*'') None,
          Divider,
          Section (Some ''card_4'') (Mrkdwn ''*Minimal Update*'') None,
          Divider,
          Section (Some ''card_5'') (Mrkdwn ''*Minimal Update*'') None,
          Section None (Mrkdwn ''_... and 2 more updates_'') None]"
proof -
  have len: "length seven_updates = 7" by (simp add: seven_updates_def)
  then have "5 < length seven_updates" by simp
  with overview_truncation [of seven_updates] len
  have "buildOverviewContent seven_updates
        = [Section None (Mrkdwn (''*Recent Updates* ('' @ show_nat 7 @ '')'')) None, Divider]
          @ buildCardList (take 5 seven_updates)
          @ [Section None
               (Mrkdwn (''_'' @ ''... and '' @ show_nat 2 @ '' more updates'' @ ''_'')) None]"
    by simp
  moreover have "buildCardList (take 5 seven_updates)
        = [Section (Some ''card_1'') (Mrkdwn ''*Minimal Update*'') None,
           Divider,
           Section (Some ''card_2'') (Mrkdwn ''*Minimal Update*'') None,
           Divider,
           Section (Some ''card_3'') (Mrkdwn ''*Minimal Update*'') None,
           Divider,
           Section (Some ''card_4'') (Mrkdwn ''*Minimal Update*'') None,
           Divider,
           Section (Some ''card_5'') (Mrkdwn ''*Minimal Update*'') None]"
    by (simp add: seven_updates_def buildCardList_five buildCard_minimal)
  ultimately show ?thesis using len by (simp add: show_nat_2 show_nat_7)
qed

text \<open>
  C5 (amended). \<open>getStatusEmoji\<close> is total and never returns the empty string; for a
  status that is unset or outside the enumeration it returns the white circle. A card
  whose status is a non-empty string outside the enumeration is its section, a context
  block whose text is the owner and date entries followed by the white circle and the
  status, and its actions. A card whose status is unset or empty renders no status entry
  and no glyph: it is its section, a context block whose text is the owner and date
  entries alone, there only when that text is not empty, and its actions; with no owner
  and no date it has no context block at all.
\<close>

theorem status_glyph_default:
  "getStatusEmoji s \<noteq> []
   \<and> (s \<notin> {Some ''active'', Some ''paused'', Some ''completed'', Some ''pending''} \<longrightarrow>
        getStatusEmoji s = WHITE_CIRCLE)
   \<and> (status (meta item) = Some st \<and> st \<noteq> []
        \<and> st \<notin> {''active'', ''paused'', ''completed'', ''pending''} \<longrightarrow>
        buildCard item
          = Section (Some (''card_'' @ item_id item))
              (Mrkdwn (''*'' @ item_title item @ ''*''
                       @ (if truthy (item_subtitle item)
                          then NL @ ''_'' @ or_else (item_subtitle item) [] @ ''_'' else [])))
              None
            # Context
                [Mrkdwn (join ('' '' @ BULLET @ '' '')
                           (meta_entry BUST (owner (meta item))
                            @ meta_entry CALENDAR (date (meta item))
                            @ [WHITE_CIRCLE @ '' '' @ st]))]
            # (case item_actions item of
                 None \<Rightarrow> []
               | Some as \<Rightarrow>
                   if as = [] then [] else [Actions None (map (card_button item) as)]))
   \<and> (\<not> truthy (status (meta item)) \<longrightarrow>
        buildCard item
          = Section (Some (''card_'' @ item_id item))
              (Mrkdwn (''*'' @ item_title item @ ''*''
                       @ (if truthy (item_subtitle item)
                          then NL @ ''_'' @ or_else (item_subtitle item) [] @ ''_'' else [])))
              None
            # (if join ('' '' @ BULLET @ '' '')
                    (meta_entry BUST (owner (meta item))
                     @ meta_entry CALENDAR (date (meta item))) = []
               then []
               else [Context
                       [Mrkdwn (join ('' '' @ BULLET @ '' '')
                                  (meta_entry BUST (owner (meta item))
                                   @ meta_entry CALENDAR (date (meta item))))]])
            @ (case item_actions item of
                 None \<Rightarrow> []
               | Some as \<Rightarrow>
                   if as = [] then [] else [Actions None (map (card_button item) as)]))
   \<and> (\<not> truthy (status (meta item)) \<and> \<not> truthy (owner (meta item))
        \<and> \<not> truthy (date (meta item)) \<longrightarrow>
        buildCard item
          = Section (Some (''card_'' @ item_id item))
              (Mrkdwn (''*'' @ item_title item @ ''*''
                       @ (if truthy (item_subtitle item)
                          then NL @ ''_'' @ or_else (item_subtitle item) [] @ ''_'' else [])))
              None
            # (case item_actions item of
                 None \<Rightarrow> []
               | Some as \<Rightarrow>
                   if as = [] then [] else [Actions None (map (card_button item) as)]))"
proof (intro conjI impI)
  show "getStatusEmoji s \<noteq> []" by (rule getStatusEmoji_not_empty)
next
  assume "s \<notin> {Some ''active'', Some ''paused'', Some ''completed'', Some ''pending''}"
  then show "getStatusEmoji s = WHITE_CIRCLE" by (rule getStatusEmoji_default)
next
  assume h: "status (meta item) = Some st \<and> st \<noteq> []
        \<and> st \<notin> {''active'', ''paused'', ''completed'', ''pending''}"
  then have m: "metaText item
          = join ('' '' @ BULLET @ '' '')
              (meta_entry BUST (owner (meta item)) @ meta_entry CALENDAR (date (meta item))
               @ [WHITE_CIRCLE @ '' '' @ st])"
    by (intro metaText_status_shown) (elim conjE, assumption)+
  from h have n: "metaText item \<noteq> []"
    by (intro metaText_status_shown_not_empty [of item st]) (elim conjE, assumption)+
  show "buildCard item
          = Section (Some (''card_'' @ item_id item))
              (Mrkdwn (''*'' @ item_title item @ ''*''
                       @ (if truthy (item_subtitle item)
                          then NL @ ''_'' @ or_else (item_subtitle item) [] @ ''_'' else [])))
              None
            # Context
                [Mrkdwn (join ('' '' @ BULLET @ '' '')
                           (meta_entry BUST (owner (meta item))
                            @ meta_entry CALENDAR (date (meta item))
                            @ [WHITE_CIRCLE @ '' '' @ st]))]
            # (case item_actions item of
                 None \<Rightarrow> []
               | Some as \<Rightarrow>
                   if as = [] then [] else [Actions None (map (card_button item) as)])"
    unfolding buildCard_shape using n unfolding m by simp
next
  assume "\<not> truthy (status (meta item))"
  then have m: "metaText item
          = join ('' '' @ BULLET @ '' '')
              (meta_entry BUST (owner (meta item)) @ meta_entry CALENDAR (date (meta item)))"
    by (rule metaText_status_hidden)
  show "buildCard item
          = Section (Some (''card_'' @ item_id item))
              (Mrkdwn (''*'' @ item_title item @ ''*''
                       @ (if truthy (item_subtitle item)
                          then NL @ ''_'' @ or_else (item_subtitle item) [] @ ''_'' else [])))
              None
            # (if join ('' '' @ BULLET @ '' '')
                    (meta_entry BUST (owner (meta item))
                     @ meta_entry CALENDAR (date (meta item))) = []
               then []
               else [Context
                       [Mrkdwn (join ('' '' @ BULLET @ '' '')
                                  (meta_entry BUST (owner (meta item))
                                   @ meta_entry CALENDAR (date (meta item))))]])
            @ (case item_actions item of
                 None \<Rightarrow> []
               | Some as \<Rightarrow>
                   if as = [] then [] else [Actions None (map (card_button item) as)])"
    unfolding buildCard_shape m by simp
next
  assume h: "\<not> truthy (status (meta item)) \<and> \<not> truthy (owner (meta item))
        \<and> \<not> truthy (date (meta item))"
  then have "metaText item
          = join ('' '' @ BULLET @ '' '')
              (meta_entry BUST (owner (meta item)) @ meta_entry CALENDAR (date (meta item)))"
    by (intro metaText_status_hidden) (elim conjE, assumption)
  moreover from h have "meta_entry BUST (owner (meta item)) = []"
    by (intro meta_entry_falsy) (elim conjE, assumption)
  moreover from h have "meta_entry CALENDAR (date (meta item)) = []"
    by (intro meta_entry_falsy) (elim conjE, assumption)
  ultimately have m: "metaText item = []" by simp
  show "buildCard item
          = Section (Some (''card_'' @ item_id item))
              (Mrkdwn (''*'' @ item_title item @ ''*''
                       @ (if truthy (item_subtitle item)
                          then NL @ ''_'' @ or_else (item_subtitle item) [] @ ''_'' else [])))
              None
            # (case item_actions item of
                 None \<Rightarrow> []
               | Some as \<Rightarrow>
                   if as = [] then [] else [Actions None (map (card_button item) as)])"
    unfolding buildCard_shape m by simp
qed

text \<open>
  Witness for C5: a card with the status \<open>archived\<close> shows the white circle; a card
  with an owner and no status shows the owner alone; the minimal card, with no status,
  owner or date, is its section alone.
\<close>

theorem status_glyph_default_cards:
  "Some ''archived'' \<notin> {Some ''active'', Some ''paused'', Some ''completed'', Some ''pending''}
   \<and> getStatusEmoji (Some ''archived'') = WHITE_CIRCLE
   \<and> status (meta archived_card) = Some ''archived''
   \<and> buildCard archived_card
       = [Section (Some ''card_test-2'') (Mrkdwn ''*Minimal Update*'') None,
          Context [Mrkdwn (WHITE_CIRCLE @ '' archived'')]]
   \<and> \<not> truthy (status (meta owned_card))
   \<and> buildCard owned_card
       = [Section (Some ''card_test-2'') (Mrkdwn ''*Minimal Update*'') None,
          Context [Mrkdwn (BUST @ '' User1'')]]
   \<and> \<not> truthy (status (meta minimal_card))
   \<and> \<not> truthy (owner (meta minimal_card))
   \<and> \<not> truthy (date (meta minimal_card))
   \<and> buildCard minimal_card
       = [Section (Some ''card_test-2'') (Mrkdwn ''*Minimal Update*'') None]"
proof -
  have a: "status (meta archived_card) = Some ''archived''"
    by (simp add: archived_card_def)
  have b: "\<not> truthy (status (meta minimal_card))" "\<not> truthy (owner (meta minimal_card))"
    "\<not> truthy (date (meta minimal_card))" "\<not> truthy (status (meta owned_card))"
    by (simp_all add: minimal_card_def owned_card_def truthy_def)
  have c: "owner (meta archived_card) = None" "date (meta archived_card) = None"
    "owner (meta owned_card) = Some ''User1''" "date (meta owned_card) = None"
    by (simp_all add: archived_card_def minimal_card_def owned_card_def)
  have f: "item_id archived_card = ''test-2''" "item_title archived_card = ''Minimal Update''"
    "item_subtitle archived_card = None" "item_actions archived_card = None"
    "item_id owned_card = ''test-2''" "item_title owned_card = ''Minimal Update''"
    "item_subtitle owned_card = None" "item_actions owned_card = None"
    "item_id minimal_card = ''test-2''" "item_title minimal_card = ''Minimal Update''"
    "item_subtitle minimal_card = None" "item_actions minimal_card = None"
    by (simp_all add: archived_card_def minimal_card_def owned_card_def)
  have n: "meta_entry g None = []" "truthy None = False" for g
    by (simp_all add: meta_entry_def truthy_def)
  have o: "meta_entry BUST (Some ''User1'') = [BUST @ '' User1'']"
    by (simp add: meta_entry_truthy)
  have g: "BUST @ '' User1'' \<noteq> []" by (simp add: BUST_def)
  have e: "status (meta archived_card) = Some ''archived'' \<and> ''archived'' \<noteq> []
           \<and> ''archived'' \<notin> {''active'', ''paused'', ''completed'', ''pending''}"
    using a by simp
  have e3: "\<not> truthy (status (meta minimal_card)) \<and> \<not> truthy (owner (meta minimal_card))
        \<and> \<not> truthy (date (meta minimal_card))"
    using b by simp
  note T = status_glyph_default [of "Some ''archived''" archived_card "''archived''"]
  have 1: "getStatusEmoji (Some ''archived'') = WHITE_CIRCLE"
    using T [THEN conjunct2, THEN conjunct1] by simp
  have 2: "buildCard archived_card
       = [Section (Some ''card_test-2'') (Mrkdwn ''*Minimal Update*'') None,
          Context [Mrkdwn (WHITE_CIRCLE @ '' archived'')]]"
    using T [THEN conjunct2, THEN conjunct2, THEN conjunct1, THEN mp, OF e]
    by (simp add: c f n)
  have 3: "buildCard owned_card
       = [Section (Some ''card_test-2'') (Mrkdwn ''*Minimal Update*'') None,
          Context [Mrkdwn (BUST @ '' User1'')]]"
    using status_glyph_default [of None owned_card, THEN conjunct2, THEN conjunct2,
        THEN conjunct2, THEN conjunct1, THEN mp, OF b(4)] g
    by (simp add: c f n o)
  have 4: "buildCard minimal_card
       = [Section (Some ''card_test-2'') (Mrkdwn ''*Minimal Update*'') None]"
    using status_glyph_default [of None minimal_card, THEN conjunct2, THEN conjunct2,
        THEN conjunct2, THEN conjunct2, THEN mp, OF e3]
    by (simp add: f n)
  from 1 2 3 4 a b show ?thesis by simp
qed

text \<open>
  C5 as stated fails: the minimal card of the tests has no status, and it renders as its
  section alone, with no context block and no glyph.
\<close>

theorem buildCard_unset_status_no_glyph:
  "status (meta minimal_card) = None
   \<and> buildCard minimal_card
       = [Section (Some ''card_test-2'') (Mrkdwn ''*Minimal Update*'') None]"
  by (simp add: buildCard_def minimal_card_def metaText_def meta_entry_def truthy_def
      BLOCK_IDS_CARD_PREFIX_def)

text \<open>
  C6. The header of the project view (ui/header.ts) does not omit an absent subtitle:
  for every icon and title, with the subtitle absent its text ends with a line feed and
  the two underscores of an empty subtitle, which \<open>trim\<close> leaves in place since the
  text ends with an underscore; so it is for the title AI Project Hub with icon and
  subtitle absent. With a subtitle the text is as the claim says, with the blue book for
  an absent icon, and the block never has an accessory, the builder taking no actions.
  The header of the builders module, whose icon is required, omits an absent or empty
  subtitle with its line feed, and has an overflow accessory exactly when at least one
  action is supplied, with one option per action of the action's text and, as value, its
  id.
\<close>

theorem buildHeader_absent_subtitle:
  "buildHeader \<lparr>h_icon = i, h_title = t, h_subtitle = None\<rparr>
     = Section (Some ''hdr'')
         (Mrkdwn (''*'' @ (case i of None \<Rightarrow> BLUE_BOOK | Some x \<Rightarrow> x) @ '' '' @ t @ ''*''
                  @ NL @ ''__''))
         None
   \<and> buildHeader \<lparr>h_icon = None, h_title = ''AI Project Hub'', h_subtitle = None\<rparr>
     = Section (Some ''hdr'') (Mrkdwn (''*'' @ BLUE_BOOK @ '' AI Project Hub*'' @ NL @ ''__'')) None
   \<and> buildHeader \<lparr>h_icon = i, h_title = t, h_subtitle = Some s\<rparr>
     = Section (Some ''hdr'')
         (Mrkdwn (''*'' @ (case i of None \<Rightarrow> BLUE_BOOK | Some x \<Rightarrow> x) @ '' '' @ t @ ''*''
                  @ NL @ ''_'' @ s @ ''_''))
         None
   \<and> accessory (buildHeader h) = None
   \<and> buildHeader_config config
     = [Section (Some ''home_header'')
          (Mrkdwn (hc_icon config @ '' *'' @ hc_title config @ ''*''
                   @ (case hc_subtitle config of
                        None \<Rightarrow> []
                      | Some s \<Rightarrow> if s = [] then [] else NL @ s)))
          (case hc_actions config of
             None \<Rightarrow> None
           | Some as \<Rightarrow>
               if as = [] then None
               else Some (Overflow (Some ''header_actions'')
                            (map (\<lambda>a. OptionObject (PlainText (a_text a)) (a_id a)) as)))]"
  by (simp add: buildHeader_config_def buildHeader_text truthy_def or_else_def
      BLOCK_IDS_HOME_HEADER_def split: option.split)

text \<open>
  C7 (amended). \<open>buildContent\<close> has a default branch: for every tab outside overview,
  my-updates and admin it returns the generic empty state, a section and a Refresh
  button. The tab chain of \<open>buildHomeView\<close> has none: with a project selected and a tab
  outside summary, tasks and risks the body is empty, and the view ends with the tab bar
  and the divider after it.
\<close>

theorem tab_switch_defaults:
  "(tab config \<notin> {''overview'', ''my-updates'', ''admin''} \<longrightarrow>
      buildContent config
        = [Section None
             (Mrkdwn (CARD_INDEX_DIVIDERS @ '' *No content available*'' @ NL
                      @ ''Select a different tab to view content''))
             None,
           Actions None
             [Button (Some ''refresh'') (PlainText ''Refresh'') (Some ''primary'') None None]])
   \<and> (selectedProject params = Some p \<and> activeTab params = Some t
        \<and> t \<notin> {''summary'', ''tasks'', ''risks''} \<longrightarrow>
      bodyBlocks (Some p) t (or_else (tasks params) []) (or_else (risks params) []) = []
      \<and> blocks (buildHomeView params)
          = buildProjectNav (projects params) (Some (p_id p))
            @ [buildHeader \<lparr>h_icon = Some BLUE_BOOK, h_title = p_name p,
                             h_subtitle = Some ''Your calm command center''\<rparr>,
               Divider, buildProjectTabs t, Divider])"
  by (simp add: buildContent_def buildEmptyState_def truthy_def ICONS_FOLDER_def
      buildHomeView_def Let_def bodyBlocks_def or_else_def)

text \<open>
  Witness for C7: the tab \<open>settings\<close>, in a \<open>HomeTab\<close> and in the parameters of the
  project view.
\<close>

theorem tab_switch_defaults_settings:
  "tab \<lparr>tab = ''settings'', items = [minimal_card]\<rparr> \<notin> {''overview'', ''my-updates'', ''admin''}
   \<and> buildContent \<lparr>tab = ''settings'', items = [minimal_card]\<rparr>
        = [Section None
             (Mrkdwn (CARD_INDEX_DIVIDERS @ '' *No content available*'' @ NL
                      @ ''Select a different tab to view content''))
             None,
           Actions None
             [Button (Some ''refresh'') (PlainText ''Refresh'') (Some ''primary'') None None]]
   \<and> selectedProject settings_params = Some seed_p1
   \<and> activeTab settings_params = Some ''settings''
   \<and> ''settings'' \<notin> {''summary'', ''tasks'', ''risks''}
   \<and> blocks (buildHomeView settings_params)
        = buildProjectNav [seed_p1] (Some ''p1'')
          @ [buildHeader \<lparr>h_icon = Some BLUE_BOOK, h_title = ''AI Project Hub'',
                           h_subtitle = Some ''Your calm command center''\<rparr>,
             Divider, buildProjectTabs ''settings'', Divider]"
proof -
  have a: "tab \<lparr>tab = ''settings'', items = [minimal_card]\<rparr>
             \<notin> {''overview'', ''my-updates'', ''admin''}" by simp
  have b: "selectedProject settings_params = Some seed_p1"
    "activeTab settings_params = Some ''settings''"
    "projects settings_params = [seed_p1]"
    by (simp_all add: settings_params_def)
  have c: "''settings'' \<notin> {''summary'', ''tasks'', ''risks''}" by simp
  have d: "p_id seed_p1 = ''p1''" "p_name seed_p1 = ''AI Project Hub''"
    by (simp_all add: seed_p1_def)
  from tab_switch_defaults
    [of "\<lparr>tab = ''settings'', items = [minimal_card]\<rparr>" settings_params seed_p1 "''settings''"]
    a b c
  show ?thesis by (simp only: d simp_thms)
qed

text \<open>
  C7 as stated fails: for the seeded project and the tab \<open>settings\<close> the body of the
  project view is nothing; the view is the navigation, the header, a divider, the tab bar
  and a divider.
\<close>

theorem buildHomeView_unknown_tab_empty_body:
  "bodyBlocks (Some seed_p1) ''settings'' [seed_t1] [] = []
   \<and> blocks (buildHomeView settings_params)
       = buildProjectNav [seed_p1] (Some ''p1'')
         @ [buildHeader \<lparr>h_icon = Some BLUE_BOOK, h_title = ''AI Project Hub'',
                          h_subtitle = Some ''Your calm command center''\<rparr>,
            Divider, buildProjectTabs ''settings'', Divider]"
  by (simp add: buildHomeView_def Let_def bodyBlocks_def or_else_def settings_params_def
      seed_p1_def)

text \<open>
  C8. For an active tab of the enumeration, \<open>buildProjectTabs\<close> is one actions block and
  \<open>buildTabs\<close> a list of one actions block; the block has one button per tab of the
  enumeration, in order; a button has the primary style when its value is the active tab
  and no style otherwise; and exactly one button has the primary style.
\<close>

theorem tab_bar_exclusive:
  "(active \<in> {''summary'', ''tasks'', ''risks''} \<longrightarrow>
      (\<exists>bs. buildProjectTabs active = Actions (Some ''tabs'') bs
         \<and> map button_value bs = [Some ''summary'', Some ''tasks'', Some ''risks'']
         \<and> map style bs
             = map (\<lambda>v. if v = Some active then Some ''primary'' else None)
                 (map button_value bs)
         \<and> primary_count bs = 1))
   \<and> (chosen \<in> {''overview'', ''my-updates'', ''admin''} \<longrightarrow>
      (\<exists>bs. buildTabs chosen = [Actions (Some ''home_tabs'') bs]
         \<and> map button_value bs = [Some ''overview'', Some ''my-updates'', Some ''admin'']
         \<and> map style bs
             = map (\<lambda>v. if v = Some chosen then Some ''primary'' else None)
                 (map button_value bs)
         \<and> primary_count bs = 1))"
proof (intro conjI impI)
  assume a: "active \<in> {''summary'', ''tasks'', ''risks''}"
  let ?bs = "[Button (Some ''tab_summary'') (PlainText ''Summary'')
            (if active = ''summary'' then Some ''primary'' else None) (Some ''summary'') None,
          Button (Some ''tab_tasks'') (PlainText ''Tasks'')
            (if active = ''tasks'' then Some ''primary'' else None) (Some ''tasks'') None,
          Button (Some ''tab_risks'') (PlainText ''Risks'')
            (if active = ''risks'' then Some ''primary'' else None) (Some ''risks'') None]"
  have 1: "buildProjectTabs active = Actions (Some ''tabs'') ?bs"
    by (rule buildProjectTabs_buttons)
  have 2: "map button_value ?bs = [Some ''summary'', Some ''tasks'', Some ''risks'']"
    by simp
  have 3: "map style ?bs
             = map (\<lambda>v. if v = Some active then Some ''primary'' else None)
                 (map button_value ?bs)"
    by auto
  from a consider "active = ''summary''" | "active = ''tasks''" | "active = ''risks''"
    by blast
  then have 4: "primary_count ?bs = 1"
    by cases (simp_all add: primary_count_def)
  from 1 2 3 4 show "\<exists>bs. buildProjectTabs active = Actions (Some ''tabs'') bs
         \<and> map button_value bs = [Some ''summary'', Some ''tasks'', Some ''risks'']
         \<and> map style bs
             = map (\<lambda>v. if v = Some active then Some ''primary'' else None)
                 (map button_value bs)
         \<and> primary_count bs = 1"
    by (intro exI [of _ ?bs] conjI)
next
  assume a: "chosen \<in> {''overview'', ''my-updates'', ''admin''}"
  let ?bs = "[Button (Some ''tab_overview'') (PlainText (COMPASS @ '' '' @ ''Overview''))
            (if ''overview'' = chosen then Some ''primary'' else None) (Some ''overview'') None,
          Button (Some ''tab_my_updates'') (PlainText (BUST @ '' '' @ ''My Updates''))
            (if ''my-updates'' = chosen then Some ''primary'' else None)
            (Some ''my-updates'') None,
          Button (Some ''tab_admin'') (PlainText (GEAR @ '' '' @ ''Admin''))
            (if ''admin'' = chosen then Some ''primary'' else None) (Some ''admin'') None]"
  have 1: "buildTabs chosen = [Actions (Some ''home_tabs'') ?bs]"
    by (rule buildTabs_buttons)
  have 2: "map button_value ?bs = [Some ''overview'', Some ''my-updates'', Some ''admin'']"
    by simp
  have 3: "map style ?bs
             = map (\<lambda>v. if v = Some chosen then Some ''primary'' else None)
                 (map button_value ?bs)"
    by auto
  from a consider "chosen = ''overview''" | "chosen = ''my-updates''" | "chosen = ''admin''"
    by blast
  then have 4: "primary_count ?bs = 1"
    by cases (simp_all add: primary_count_def)
  from 1 2 3 4 show "\<exists>bs. buildTabs chosen = [Actions (Some ''home_tabs'') bs]
         \<and> map button_value bs = [Some ''overview'', Some ''my-updates'', Some ''admin'']
         \<and> map style bs
             = map (\<lambda>v. if v = Some chosen then Some ''primary'' else None)
                 (map button_value bs)
         \<and> primary_count bs = 1"
    by (intro exI [of _ ?bs] conjI)
qed

text \<open>
  Witness for C8: with \<open>tasks\<close> active the styles of the project tab bar are none,
  primary, none; with \<open>my-updates\<close> active so are those of the other tab bar.
\<close>

theorem tab_bar_exclusive_tasks:
  "''tasks'' \<in> {''summary'', ''tasks'', ''risks''}
   \<and> map style (action_elements (buildProjectTabs ''tasks'')) = [None, Some ''primary'', None]
   \<and> ''my-updates'' \<in> {''overview'', ''my-updates'', ''admin''}
   \<and> map (map style o action_elements) (buildTabs ''my-updates'')
       = [[None, Some ''primary'', None]]"
proof -
  have a: "''tasks'' \<in> {''summary'', ''tasks'', ''risks''}" by simp
  have b: "''my-updates'' \<in> {''overview'', ''my-updates'', ''admin''}" by simp
  note T = tab_bar_exclusive [of "''tasks''" "''my-updates''"]
  from T [THEN conjunct1, rule_format, OF a] obtain bs where
    h: "buildProjectTabs ''tasks'' = Actions (Some ''tabs'') bs
         \<and> map button_value bs = [Some ''summary'', Some ''tasks'', Some ''risks'']
         \<and> map style bs
             = map (\<lambda>v. if v = Some ''tasks'' then Some ''primary'' else None)
                 (map button_value bs)
         \<and> primary_count bs = 1" ..
  from T [THEN conjunct2, rule_format, OF b] obtain cs where
    k: "buildTabs ''my-updates'' = [Actions (Some ''home_tabs'') cs]
         \<and> map button_value cs = [Some ''overview'', Some ''my-updates'', Some ''admin'']
         \<and> map style cs
             = map (\<lambda>v. if v = Some ''my-updates'' then Some ''primary'' else None)
                 (map button_value cs)
         \<and> primary_count cs = 1" ..
  have bv: "map button_value bs = [Some ''summary'', Some ''tasks'', Some ''risks'']"
    using h by (rule conjunct2 [THEN conjunct1])
  have bst: "map style bs
             = map (\<lambda>v. if v = Some ''tasks'' then Some ''primary'' else None)
                 (map button_value bs)"
    using h by (rule conjunct2 [THEN conjunct2, THEN conjunct1])
  have cv: "map button_value cs = [Some ''overview'', Some ''my-updates'', Some ''admin'']"
    using k by (rule conjunct2 [THEN conjunct1])
  have cst: "map style cs
             = map (\<lambda>v. if v = Some ''my-updates'' then Some ''primary'' else None)
                 (map button_value cs)"
    using k by (rule conjunct2 [THEN conjunct2, THEN conjunct1])
  have "map style bs = [None, Some ''primary'', None]"
    unfolding bst bv by simp
  moreover have "map style cs = [None, Some ''primary'', None]"
    unfolding cst cv by simp
  moreover have "buildProjectTabs ''tasks'' = Actions (Some ''tabs'') bs"
    using h by (rule conjunct1)
  moreover have "buildTabs ''my-updates'' = [Actions (Some ''home_tabs'') cs]"
    using k by (rule conjunct1)
  ultimately show ?thesis using a b by simp
qed

text \<open>
  C9. For every list of projects and any two choices of the selected id (none
  included), the output of \<open>buildProjectNav\<close> is the context block labelled Projects, one
  section row per project in input order, and a trailing divider; a row's block id,
  and its button's action id and value, are made of the project's id alone, and only the
  glyph that leads the row's text and the button's label depend on the selected id. So
  the two outputs have the same number of blocks, the same block ids and the same button
  action ids and values, position by position, and they are equal once each row's text
  and button label are erased.
\<close>

theorem buildProjectNav_selection_presentational:
  "buildProjectNav ps a
     = Context [Mrkdwn ''*Projects*'']
       # map (\<lambda>p. Section (Some (''nav_'' @ p_id p))
                    (Mrkdwn ((if a = Some (p_id p) then BULLET else WHITE_BULLET)
                             @ '' *'' @ p_name p @ ''*''))
                    (Some (Button (Some (''nav_open_'' @ p_id p))
                             (PlainText (if a = Some (p_id p) then ''Open'' else ''View''))
                             None (Some (p_id p)) None)))
           ps
       @ [Divider]
   \<and> length (buildProjectNav ps a) = length ps + 2
   \<and> length (buildProjectNav ps a) = length (buildProjectNav ps b)
   \<and> map block_id_of (buildProjectNav ps a)
       = None # map (\<lambda>p. Some (''nav_'' @ p_id p)) ps @ [None]
   \<and> map block_id_of (buildProjectNav ps a) = map block_id_of (buildProjectNav ps b)
   \<and> map accessory_ids (buildProjectNav ps a)
       = None # map (\<lambda>p. Some (Some (''nav_open_'' @ p_id p), Some (p_id p))) ps @ [None]
   \<and> map accessory_ids (buildProjectNav ps a) = map accessory_ids (buildProjectNav ps b)
   \<and> map presentation_erased (buildProjectNav ps a)
       = map presentation_erased (buildProjectNav ps b)"
  by (simp add: buildProjectNav_def nav_row_def comp_def)

text \<open>
  C10. \<open>buildHome\<close> returns the view of type home whose blocks are the header, the tab
  bar, a divider and the content, with no \<open>private_metadata\<close>; read back, it gives the
  empty state. \<open>buildHomeView\<close> always attaches the serialised state.
\<close>

theorem buildHome_no_state_token:
  "buildHome config
     = \<lparr>view_type = ''home'', private_metadata = None,
         blocks = buildHeader_config
                    \<lparr>hc_icon = PUSHPIN, hc_title = ''Project Updates'',
                     hc_subtitle = Some ''Track team progress and manage updates'',
                     hc_actions = Some [\<lparr>a_id = ''refresh'', a_text = ''Refresh'',
                                         a_style = None, a_confirm = None\<rparr>]\<rparr>
                  @ buildTabs (tab config) @ [Divider] @ buildContent config\<rparr>
   \<and> private_metadata (buildHome config) = None
   \<and> getStateFromView (Some (buildHome config)) = Inr (JObj [])
   \<and> private_metadata (buildHomeView params)
       = JSON_stringify (HomeState (map_option p_id (selectedProject params))
                           (Some (or_else (activeTab params) ''summary'')))
   \<and> private_metadata (buildHomeView params) \<noteq> None"
proof -
  obtain pm where "JSON_stringify (HomeState (map_option p_id (selectedProject params))
                           (Some (or_else (activeTab params) ''summary''))) = Some pm"
    using stringify_HomeState by blast
  then show ?thesis
    by (simp add: buildHome_def ICONS_PIN_def getStateFromView_def getStateFromView_try_def
        buildHomeView_def Let_def)
qed

end
